theory Spec2Isabelle
  imports Complex_Main "HOL-Library.Multiset" "HOL-Library.Monad_Syntax"
begin

section \<open>Values of numeric columns\<close>

text \<open>
  A cell of a numeric pandas column is an IEEE double. The model keeps the four kinds of
  value a double can be and computes on the finite ones with exact real arithmetic:
  rounding, overflow and the sign of zero are left out. \<open>NaN\<close> is also what pandas
  stores for a missing value (Python's \<^verbatim>\<open>None\<close> in a numeric column).
\<close>

datatype float64 = Fin real | PInf | NInf | NaN

fun fneg :: "float64 \<Rightarrow> float64" where
  "fneg (Fin a) = Fin (- a)"
| "fneg PInf = NInf"
| "fneg NInf = PInf"
| "fneg NaN = NaN"

fun fadd :: "float64 \<Rightarrow> float64 \<Rightarrow> float64" where
  "fadd (Fin a) (Fin b) = Fin (a + b)"
| "fadd NaN y = NaN"
| "fadd x NaN = NaN"
| "fadd PInf NInf = NaN"
| "fadd NInf PInf = NaN"
| "fadd PInf y = PInf"
| "fadd x PInf = PInf"
| "fadd NInf y = NInf"
| "fadd x NInf = NInf"

definition fsub :: "float64 \<Rightarrow> float64 \<Rightarrow> float64" where
  "fsub x y = fadd x (fneg y)"

text \<open>The infinity whose sign is that of the real number \<open>a\<close>; \<open>NaN\<close> at zero.\<close>

definition signed_inf :: "real \<Rightarrow> float64" where
  "signed_inf a = (if a = 0 then NaN else if 0 < a then PInf else NInf)"

fun fmul :: "float64 \<Rightarrow> float64 \<Rightarrow> float64" where
  "fmul (Fin a) (Fin b) = Fin (a * b)"
| "fmul NaN y = NaN"
| "fmul x NaN = NaN"
| "fmul PInf (Fin b) = signed_inf b"
| "fmul NInf (Fin b) = signed_inf (- b)"
| "fmul (Fin a) PInf = signed_inf a"
| "fmul (Fin a) NInf = signed_inf (- a)"
| "fmul PInf PInf = PInf"
| "fmul NInf NInf = PInf"
| "fmul PInf NInf = NInf"
| "fmul NInf PInf = NInf"

text \<open>
  numpy's true division: a finite number over zero is an infinity, zero over zero and
  infinity over infinity are \<open>NaN\<close>; nothing is raised.
\<close>

fun fdiv :: "float64 \<Rightarrow> float64 \<Rightarrow> float64" where
  "fdiv (Fin a) (Fin b) = (if b \<noteq> 0 then Fin (a / b) else signed_inf a)"
| "fdiv NaN y = NaN"
| "fdiv x NaN = NaN"
| "fdiv (Fin a) PInf = Fin 0"
| "fdiv (Fin a) NInf = Fin 0"
| "fdiv PInf (Fin b) = (if 0 \<le> b then PInf else NInf)"
| "fdiv NInf (Fin b) = (if 0 \<le> b then NInf else PInf)"
| "fdiv PInf y = NaN"
| "fdiv NInf y = NaN"

text \<open>
  \<^verbatim>\<open>x ** e\<close> for a numpy double \<open>x\<close> and a finite exponent \<open>e\<close>. A negative base with
  an exponent that is not a whole number gives \<open>NaN\<close>.
\<close>

definition is_whole :: "real \<Rightarrow> bool" where
  "is_whole e = (e = of_int \<lfloor>e\<rfloor>)"

fun fpow :: "float64 \<Rightarrow> real \<Rightarrow> float64" where
  "fpow (Fin a) e =
     (if e = 0 then Fin 1
      else if 0 < a then Fin (a powr e)
      else if a = 0 then (if 0 < e then Fin 0 else PInf)
      else if is_whole e then Fin (a powi \<lfloor>e\<rfloor>)
      else NaN)"
| "fpow PInf e = (if e = 0 then Fin 1 else if 0 < e then PInf else Fin 0)"
| "fpow NInf e =
     (if e = 0 then Fin 1
      else if 0 < e then (if is_whole e \<and> odd \<lfloor>e\<rfloor> then NInf else PInf)
      else Fin 0)"
| "fpow NaN e = (if e = 0 then Fin 1 else NaN)"

text \<open>\<^verbatim>\<open>x > 0\<close>: false for \<open>NaN\<close>.\<close>

fun fpositive :: "float64 \<Rightarrow> bool" where
  "fpositive (Fin a) = (0 < a)"
| "fpositive PInf = True"
| "fpositive NInf = False"
| "fpositive NaN = False"

text \<open>The order of the values that are not \<open>NaN\<close>.\<close>

fun fle :: "float64 \<Rightarrow> float64 \<Rightarrow> bool" where
  "fle (Fin a) (Fin b) = (a \<le> b)"
| "fle NInf y = True"
| "fle x PInf = True"
| "fle x y = False"

definition fmax :: "float64 \<Rightarrow> float64 \<Rightarrow> float64" where
  "fmax x y = (if fle x y then y else x)"

definition fmin :: "float64 \<Rightarrow> float64 \<Rightarrow> float64" where
  "fmin x y = (if fle x y then x else y)"

definition notna :: "float64 \<Rightarrow> bool" where
  "notna x = (x \<noteq> NaN)"

fun is_fin :: "float64 \<Rightarrow> bool" where
  "is_fin (Fin a) = True"
| "is_fin x = False"

fun the_fin :: "float64 \<Rightarrow> real" where
  "the_fin (Fin a) = a"
| "the_fin x = 0"

section \<open>Sector classifier (scripts/create_dashboard.py)\<close>

text \<open>
  \<^verbatim>\<open>get_sector_classification\<close> holds a dict literal from sector label to the list of
  its symbols and inverts it with two nested loops into a dict from symbol to sector.
  The dict literal is an association list in insertion order, the inverted dict a map.
\<close>

definition sectors :: "(string \<times> string list) list" where
  "sectors =
    [(''Banque'', [''SGBCI'', ''BOA'', ''ECOBANK'', ''SIB'', ''NSIA'', ''BICI'', ''BDM'', ''CORIS'']),
     (''Agro-industrie'', [''SOGB'', ''SAPH'', ''PALC'', ''SIFCA'', ''SICOR'', ''SUCRIVOIRE'']),
     (''Distribution'', [''CFAO'', ''BERNABE'', ''VIVO'', ''TOTAL'']),
     (''Services publics'', [''SODECI'', ''CIE'', ''SONATEL'', ''ONATEL'']),
     (''Industrie'', [''NESTLE'', ''SOLIBRA'', ''SMB'', ''UNIWAX'', ''FILTISAC'', ''AIR'']),
     (''Transport'', [''BOLLORE'', ''MOVIS'', ''SETAO''])]"

text \<open>The inner loop: \<^verbatim>\<open>for symbol in symbols: symbol_to_sector[symbol] = sector\<close>.\<close>

fun assign_sector :: "string \<Rightarrow> string list \<Rightarrow> (string \<rightharpoonup> string) \<Rightarrow> (string \<rightharpoonup> string)" where
  "assign_sector sector [] m = m"
| "assign_sector sector (symbol # symbols) m = assign_sector sector symbols (m(symbol \<mapsto> sector))"

text \<open>The outer loop: \<^verbatim>\<open>for sector, symbols in sectors.items()\<close>.\<close>

fun invert_sectors :: "(string \<times> string list) list \<Rightarrow> (string \<rightharpoonup> string) \<Rightarrow> (string \<rightharpoonup> string)" where
  "invert_sectors [] m = m"
| "invert_sectors ((sector, symbols) # rest) m = invert_sectors rest (assign_sector sector symbols m)"

definition get_sector_classification :: "string \<rightharpoonup> string" where
  "get_sector_classification = invert_sectors sectors Map.empty"

text \<open>\<^verbatim>\<open>x.startswith(p)\<close> on strings.\<close>

definition startswith :: "string \<Rightarrow> string \<Rightarrow> bool" where
  "startswith x p = (take (length p) x = p)"

text \<open>
  The lambda mapped over the symbols in \<^verbatim>\<open>create_sector_chart\<close>:
  \<^verbatim>\<open>symbol_to_sector.get(x, 'Indice' if x.startswith('BRVM') else 'Autres')\<close>.
\<close>

definition classify :: "string \<Rightarrow> string" where
  "classify x =
     (case get_sector_classification x of
        Some sector \<Rightarrow> sector
      | None \<Rightarrow> (if startswith x ''BRVM'' then ''Indice'' else ''Autres''))"

section \<open>The scraper (scraper/brvm_scraper.py)\<close>

subsection \<open>Records, responses and library parsers\<close>

text \<open>
  One row of a price DataFrame. \<open>Date\<close> is the day number of the timestamp (the proleptic
  Gregorian ordinal; the time of day is not modelled). A missing number is \<open>NaN\<close>.
  \<open>Variation\<close> is the extra column that only the Sika Finance payload carries: \<open>None\<close>
  where the frame has no such column.
\<close>

record price_record =
  Date :: int
  Ouverture :: float64
  Plus_Haut :: float64
  Plus_Bas :: float64
  Cloture :: float64
  Variation :: "float64 option"
  Volume :: float64
  Symbole :: string

text \<open>
  A request either raises (network error, \<^verbatim>\<open>raise_for_status\<close>, a body that is not
  JSON) or gives a body.
\<close>

datatype 'a response = Raised | Body 'a

text \<open>
  What BeautifulSoup finds in a page: \<open>None\<close> when \<^verbatim>\<open>select_one("table.table")\<close>
  finds no table, otherwise the rows of \<^verbatim>\<open>tbody tr\<close>, each the texts of its
  \<^verbatim>\<open>td\<close> cells.
\<close>

type_synonym html_page = "string list list option"

text \<open>One object of the \<^verbatim>\<open>intraday\<close> array of the Sika Finance payload.\<close>

record sika_row =
  date :: string
  ouverture :: float64
  plus_haut :: float64
  plus_bas :: float64
  cloture :: float64
  variation :: float64
  volume :: float64

text \<open>The payload: \<open>None\<close> when it has no key \<^verbatim>\<open>intraday\<close>.\<close>

type_synonym sika_payload = "sika_row list option"

text \<open>
  The library functions the scraper parses text with, as parameters of the model; each
  gives \<open>None\<close> where the Python function raises. \<open>strptime\<close> is
  \<^verbatim>\<open>datetime.strptime(s, '%d/%m/%Y')\<close>, \<open>py_float\<close> and \<open>py_int\<close> are the built-ins
  \<^verbatim>\<open>float\<close> and \<^verbatim>\<open>int\<close>, \<open>to_datetime\<close> is what \<^verbatim>\<open>pd.to_datetime\<close> makes of
  one cell of the column it converts.
\<close>

record parsers =
  strptime :: "string \<Rightarrow> int option"
  py_float :: "string \<Rightarrow> float64 option"
  py_int :: "string \<Rightarrow> int option"
  to_datetime :: "string \<Rightarrow> int option"

subsection \<open>String methods\<close>

text \<open>
  A character of the model is a code point below 256. \<^verbatim>\<open>str.strip()\<close> removes the
  ones for which \<^verbatim>\<open>str.isspace\<close> holds: tab to carriage return, the four separators
  \<^verbatim>\<open>\x1c\<close> to \<^verbatim>\<open>\x1f\<close>, the space, the next-line character \<^verbatim>\<open>\x85\<close> and the
  no-break space \<^verbatim>\<open>\xa0\<close>.
\<close>

definition isspace :: "char \<Rightarrow> bool" where
  "isspace c = (of_char c \<in> {9, 10, 11, 12, 13, 28, 29, 30, 31, 32, 133, 160 :: nat})"

definition strip :: "string \<Rightarrow> string" where
  "strip s = rev (dropWhile isspace (rev (dropWhile isspace s)))"

text \<open>\<^verbatim>\<open>s.replace(a, b)\<close> for single characters \<open>a\<close> and \<open>b\<close>.\<close>

definition replace_char :: "char \<Rightarrow> char \<Rightarrow> string \<Rightarrow> string" where
  "replace_char a b s = map (\<lambda>c. if c = a then b else c) s"

text \<open>\<^verbatim>\<open>s.replace(a, '')\<close> for a single character \<open>a\<close>.\<close>

definition remove_char :: "char \<Rightarrow> string \<Rightarrow> string" where
  "remove_char a s = filter (\<lambda>c. c \<noteq> a) s"

text \<open>\<^verbatim>\<open>s.split(c)\<close> for a single character \<open>c\<close>.\<close>

fun split_on :: "char \<Rightarrow> string \<Rightarrow> string list" where
  "split_on c [] = [[]]"
| "split_on c (x # xs) =
     (if x = c then [] # split_on c xs
      else (case split_on c xs of [] \<Rightarrow> [[x]] | w # ws \<Rightarrow> (x # w) # ws))"

subsection \<open>Sorting a frame by date\<close>

text \<open>
  \<^verbatim>\<open>df.sort_values("Date")\<close>. pandas sorts with quicksort by default and does not fix
  the order of rows with equal dates; the model sorts stably, and no property below
  depends on the order it gives to equal dates.
\<close>

definition sort_values :: "price_record list \<Rightarrow> price_record list" where
  "sort_values df = sort_key Date df"

subsection \<open>The list of instruments\<close>

text \<open>
  \<^verbatim>\<open>get_all_stocks\<close>: symbol and name of every row with at least two cells; the empty
  list when the request raises.
\<close>

fun stock_rows :: "string list list \<Rightarrow> (string \<times> string) list" where
  "stock_rows [] = []"
| "stock_rows (cols # rows) =
     (if 2 \<le> length cols then (strip (cols ! 0), strip (cols ! 1)) # stock_rows rows
      else stock_rows rows)"

definition get_all_stocks :: "html_page response \<Rightarrow> (string \<times> string) list" where
  "get_all_stocks resp =
     (case resp of
        Raised \<Rightarrow> []
      | Body None \<Rightarrow> []
      | Body (Some rows) \<Rightarrow> stock_rows rows)"

subsection \<open>The Sika Finance adapter\<close>

text \<open>The row of the renamed frame, with its parsed date and the symbol column added.\<close>

definition sika_record :: "string \<Rightarrow> int \<Rightarrow> sika_row \<Rightarrow> price_record" where
  "sika_record symbol d r =
     \<lparr>Date = d, Ouverture = ouverture r, Plus_Haut = plus_haut r, Plus_Bas = plus_bas r,
      Cloture = cloture r, Variation = Some (variation r), Volume = volume r,
      Symbole = symbol\<rparr>"

text \<open>
  \<^verbatim>\<open>df["Date"] = pd.to_datetime(df["Date"])\<close> converts the whole column or raises:
  one cell that does not parse loses every row.
\<close>

fun sika_records :: "parsers \<Rightarrow> string \<Rightarrow> sika_row list \<Rightarrow> price_record list option" where
  "sika_records P symbol [] = Some []"
| "sika_records P symbol (r # rs) =
     (case to_datetime P (date r) of
        None \<Rightarrow> None
      | Some d \<Rightarrow> map_option ((#) (sika_record symbol d r)) (sika_records P symbol rs))"

text \<open>
  \<^verbatim>\<open>scrape_sika_finance\<close>, called with its default dates. Every exception is caught
  and gives the empty frame, the empty list here.
\<close>

definition scrape_sika_finance :: "parsers \<Rightarrow> string \<Rightarrow> sika_payload response \<Rightarrow> price_record list" where
  "scrape_sika_finance P symbol resp =
     (case resp of
        Raised \<Rightarrow> []
      | Body None \<Rightarrow> []
      | Body (Some intraday) \<Rightarrow>
          (if 0 < length intraday then
             (case sika_records P symbol intraday of
                None \<Rightarrow> []
              | Some df \<Rightarrow> sort_values df)
           else []))"

subsection \<open>The BRVM adapter\<close>

text \<open>\<^verbatim>\<open>float(s) if s else None\<close>: the empty text is a missing value.\<close>

definition float_or_none :: "parsers \<Rightarrow> string \<Rightarrow> float64 option" where
  "float_or_none P s = (if s \<noteq> [] then py_float P s else Some NaN)"

text \<open>\<^verbatim>\<open>int(s) if s else 0\<close>.\<close>

definition int_or_zero :: "parsers \<Rightarrow> string \<Rightarrow> int option" where
  "int_or_zero P s = (if s \<noteq> [] then py_int P s else Some 0)"

text \<open>
  The body of the loop for a row of at least six cells: \<open>None\<close> when
  \<^verbatim>\<open>strptime\<close>, \<^verbatim>\<open>float\<close> or \<^verbatim>\<open>int\<close> raises.
\<close>

definition brvm_record :: "parsers \<Rightarrow> string \<Rightarrow> string list \<Rightarrow> price_record option" where
  "brvm_record P symbol cols =
     (let date_str = strip (cols ! 0);
          opening = replace_char (CHR '','') (CHR ''.'') (strip (cols ! 1));
          high = replace_char (CHR '','') (CHR ''.'') (strip (cols ! 2));
          low = replace_char (CHR '','') (CHR ''.'') (strip (cols ! 3));
          closing = replace_char (CHR '','') (CHR ''.'') (strip (cols ! 4));
          volume = remove_char (CHR '' '') (strip (cols ! 5))
      in do {
        d \<leftarrow> strptime P date_str;
        opn \<leftarrow> float_or_none P opening;
        h \<leftarrow> float_or_none P high;
        l \<leftarrow> float_or_none P low;
        c \<leftarrow> float_or_none P closing;
        v \<leftarrow> int_or_zero P volume;
        Some \<lparr>Date = d, Ouverture = opn, Plus_Haut = h, Plus_Bas = l, Cloture = c,
              Variation = None, Volume = Fin (of_int v), Symbole = symbol\<rparr>
      })"

text \<open>
  The text that the loop hands to \<^verbatim>\<open>float\<close> for a price cell, and what it means that
  the cells of a row parse: the date does, every price cell that is not empty does, and
  the volume does when it is not empty.
\<close>

definition price_text :: "string \<Rightarrow> string" where
  "price_text cell = replace_char (CHR '','') (CHR ''.'') (strip cell)"

definition volume_text :: "string \<Rightarrow> string" where
  "volume_text cell = remove_char (CHR '' '') (strip cell)"

definition row_parses :: "parsers \<Rightarrow> string list \<Rightarrow> bool" where
  "row_parses P cols =
     (strptime P (strip (cols ! 0)) \<noteq> None
      \<and> (\<forall>i \<in> {1, 2, 3, 4}. price_text (cols ! i) = [] \<or> py_float P (price_text (cols ! i)) \<noteq> None)
      \<and> (volume_text (cols ! 5) = [] \<or> py_int P (volume_text (cols ! 5)) \<noteq> None))"

text \<open>
  The loop over the rows. A row of fewer than six cells is passed over; an exception in
  a row leaves the loop and the function's \<^verbatim>\<open>try\<close> block.
\<close>

fun brvm_records :: "parsers \<Rightarrow> string \<Rightarrow> string list list \<Rightarrow> price_record list option" where
  "brvm_records P symbol [] = Some []"
| "brvm_records P symbol (cols # rows) =
     (if 6 \<le> length cols then
        (case brvm_record P symbol cols of
           None \<Rightarrow> None
         | Some r \<Rightarrow> map_option ((#) r) (brvm_records P symbol rows))
      else brvm_records P symbol rows)"

text \<open>
  \<^verbatim>\<open>scrape_brvm_official\<close>, called with its default dates. The \<^verbatim>\<open>except\<close> clause
  around the whole body returns the empty frame.
\<close>

definition scrape_brvm_official :: "parsers \<Rightarrow> string \<Rightarrow> html_page response \<Rightarrow> price_record list" where
  "scrape_brvm_official P symbol resp =
     (case resp of
        Raised \<Rightarrow> []
      | Body None \<Rightarrow> []
      | Body (Some rows) \<Rightarrow>
          (case brvm_records P symbol rows of
             None \<Rightarrow> []
           | Some df \<Rightarrow> (if df \<noteq> [] then sort_values df else df)))"

subsection \<open>The resolver\<close>

text \<open>
  The two sites as the run sees them, and what the run leaves behind: the files it wrote
  (path to saved frame) and the sequence of its calls and log lines.
\<close>

record upstream =
  stocks_page :: "html_page response"
  sika :: "string \<Rightarrow> sika_payload response"
  brvm :: "string \<Rightarrow> html_page response"

datatype event =
  CallSika string | CallBrvm string | Saved string string | NoData string | Sleep

record run_state =
  files :: "string \<rightharpoonup> price_record list"
  trace :: "event list"

definition emit :: "event \<Rightarrow> run_state \<Rightarrow> run_state" where
  "emit e st = st\<lparr>trace := trace st @ [e]\<rparr>"

text \<open>\<^verbatim>\<open>f"data/{symbol.replace('/', '-')}_historical.csv"\<close>\<close>

definition output_path :: "string \<Rightarrow> string" where
  "output_path symbol = ''data/'' @ replace_char (CHR ''/'') (CHR ''-'') symbol @ ''_historical.csv''"

text \<open>\<^verbatim>\<open>self.indices\<close>\<close>

definition indices :: "string list" where
  "indices = [''BRVM-Composite'', ''BRVM-30'']"

text \<open>The body of the loop of \<^verbatim>\<open>get_all_historical_data\<close> for one symbol.\<close>

definition resolve_symbol ::
  "parsers \<Rightarrow> upstream \<Rightarrow> bool \<Rightarrow> bool \<Rightarrow> string \<Rightarrow> run_state \<Rightarrow> run_state" where
  "resolve_symbol P W use_sika use_brvm symbol st0 =
     (let df_combined = [];
          (st1, df_combined) =
            (if use_sika then
               (let df_sika = scrape_sika_finance P symbol (sika W symbol)
                in (emit (CallSika symbol) st0, if df_sika \<noteq> [] then df_sika else df_combined))
             else (st0, df_combined));
          (st2, df_combined) =
            (if use_brvm \<and> df_combined = [] then
               (let df_brvm = scrape_brvm_official P symbol (brvm W symbol)
                in (emit (CallBrvm symbol) st1, if df_brvm \<noteq> [] then df_brvm else df_combined))
             else (st1, df_combined));
          st3 =
            (if df_combined \<noteq> [] then
               emit (Saved symbol (output_path symbol))
                 (st2\<lparr>files := (files st2)(output_path symbol \<mapsto> df_combined)\<rparr>)
             else emit (NoData symbol) st2)
      in emit Sleep st3)"

text \<open>\<^verbatim>\<open>get_all_historical_data\<close>: the instruments of the site, then the indices.\<close>

definition all_symbols :: "upstream \<Rightarrow> string list" where
  "all_symbols W = map fst (get_all_stocks (stocks_page W)) @ indices"

definition get_all_historical_data ::
  "parsers \<Rightarrow> upstream \<Rightarrow> bool \<Rightarrow> bool \<Rightarrow> run_state \<Rightarrow> run_state" where
  "get_all_historical_data P W use_sika use_brvm st =
     fold (resolve_symbol P W use_sika use_brvm) (all_symbols W) st"

section \<open>The performance indicators (scripts/create_dashboard.py)\<close>

subsection \<open>Series methods\<close>

text \<open>\<^verbatim>\<open>Series.shift(1)\<close>: every value one place down, a missing value on top.\<close>

definition shift1 :: "float64 list \<Rightarrow> float64 list" where
  "shift1 xs = (if xs = [] then [] else NaN # butlast xs)"

text \<open>Forward fill: a missing value takes the last value seen before it, if any.\<close>

fun ffill_from :: "float64 \<Rightarrow> float64 list \<Rightarrow> float64 list" where
  "ffill_from prev [] = []"
| "ffill_from prev (x # xs) =
     (if x = NaN then prev # ffill_from prev xs else x # ffill_from x xs)"

definition ffill :: "float64 list \<Rightarrow> float64 list" where
  "ffill xs = ffill_from NaN xs"

text \<open>
  \<^verbatim>\<open>Series.pct_change()\<close> with its defaults (one period, forward fill of missing values
  first): \<^verbatim>\<open>data / data.shift(1) - 1\<close>.
\<close>

definition pct_change :: "float64 list \<Rightarrow> float64 list" where
  "pct_change xs =
     (let data = ffill xs
      in map2 (\<lambda>x prev. fsub (fdiv x prev) (Fin 1)) data (shift1 data))"

text \<open>
  \<^verbatim>\<open>Series.cumprod()\<close> and \<^verbatim>\<open>Series.cummax()\<close>: a missing value is passed over, and
  is missing in the result too.
\<close>

fun cumprod_from :: "float64 \<Rightarrow> float64 list \<Rightarrow> float64 list" where
  "cumprod_from acc [] = []"
| "cumprod_from acc (x # xs) =
     (if x = NaN then NaN # cumprod_from acc xs
      else fmul acc x # cumprod_from (fmul acc x) xs)"

definition cumprod :: "float64 list \<Rightarrow> float64 list" where
  "cumprod xs = cumprod_from (Fin 1) xs"

fun cummax_from :: "float64 \<Rightarrow> float64 list \<Rightarrow> float64 list" where
  "cummax_from acc [] = []"
| "cummax_from acc (x # xs) =
     (if x = NaN then NaN # cummax_from acc xs
      else fmax acc x # cummax_from (fmax acc x) xs)"

definition cummax :: "float64 list \<Rightarrow> float64 list" where
  "cummax xs = cummax_from NInf xs"

text \<open>
  \<^verbatim>\<open>Series.max()\<close> and \<^verbatim>\<open>Series.min()\<close>: over the values that are not missing;
  missing when there is none.
\<close>

definition series_max :: "float64 list \<Rightarrow> float64" where
  "series_max xs = (case filter notna xs of [] \<Rightarrow> NaN | v # vs \<Rightarrow> fold fmax vs v)"

definition series_min :: "float64 list \<Rightarrow> float64" where
  "series_min xs = (case filter notna xs of [] \<Rightarrow> NaN | v # vs \<Rightarrow> fold fmin vs v)"

text \<open>
  \<^verbatim>\<open>Series.std()\<close>: the sample standard deviation (divisor \<open>n - 1\<close>) of the values that
  are not missing; missing when there are fewer than two of them, or when one is infinite.
\<close>

definition series_std :: "float64 list \<Rightarrow> float64" where
  "series_std xs =
     (let vals = filter notna xs; n = length vals
      in if n \<le> 1 then NaN
         else if \<not> list_all is_fin vals then NaN
         else (let rs = map the_fin vals;
                   avg = sum_list rs / real n
               in Fin (sqrt (sum_list (map (\<lambda>x. (avg - x)\<^sup>2) rs) / real (n - 1)))))"

text \<open>\<^verbatim>\<open>df['Date'].min()\<close> and \<^verbatim>\<open>df['Date'].max()\<close> of a column that is not empty.\<close>

definition dates_min :: "int list \<Rightarrow> int" where
  "dates_min ds = fold min (tl ds) (hd ds)"

definition dates_max :: "int list \<Rightarrow> int" where
  "dates_max ds = fold max (tl ds) (hd ds)"

subsection \<open>The frame and the indicators\<close>

text \<open>
  The DataFrame that \<^verbatim>\<open>calculate_performance\<close> is given: the price rows, and the three
  columns the function adds to it, \<open>None\<close> as long as the frame does not have them.
\<close>

record dataframe =
  price_rows :: "price_record list"
  Rendement :: "float64 list option"
  Cumul :: "float64 list option"
  Drawdown :: "float64 list option"

text \<open>The dict that \<^verbatim>\<open>calculate_performance\<close> returns.\<close>

record metrics =
  start_date :: int
  end_date :: int
  duration_days :: int
  duration_years :: real
  initial_price :: float64
  final_price :: float64
  total_return :: float64
  annual_return :: float64
  volatility :: float64
  sharpe_ratio :: float64
  max_daily_return :: float64
  min_daily_return :: float64
  max_drawdown :: float64

text \<open>
  \<^verbatim>\<open>calculate_performance\<close>. The function assigns columns of the frame it was given, so
  the model returns the frame next to the result; \<open>None\<close> is the empty dict.
\<close>

definition calculate_performance :: "dataframe \<Rightarrow> metrics option \<times> dataframe" where
  "calculate_performance df0 =
     (if price_rows df0 = [] \<or> length (price_rows df0) < 2 then (None, df0)
      else
        (let rendement = pct_change (map Cloture (price_rows df0));
             df1 = df0\<lparr>Rendement := Some rendement\<rparr>;
             start_date = dates_min (map Date (price_rows df1));
             end_date = dates_max (map Date (price_rows df1));
             duration_days = end_date - start_date;
             duration_years = real_of_int duration_days / 365.25;
             initial_price = Cloture (hd (price_rows df1));
             final_price = Cloture (last (price_rows df1));
             total_return = fmul (fsub (fdiv final_price initial_price) (Fin 1)) (Fin 100);
             annual_return =
               (if duration_years > 0
                then fmul (fsub (fpow (fdiv final_price initial_price) (1 / duration_years)) (Fin 1))
                       (Fin 100)
                else Fin 0);
             volatility = fmul (fmul (series_std rendement) (Fin (sqrt 252))) (Fin 100);
             risk_free_rate = 0.03;
             sharpe_ratio =
               (if fpositive volatility
                then fdiv (fsub (fdiv annual_return (Fin 100)) (Fin risk_free_rate))
                       (fdiv volatility (Fin 100))
                else Fin 0);
             max_daily_return = fmul (series_max rendement) (Fin 100);
             min_daily_return = fmul (series_min rendement) (Fin 100);
             cumul = cumprod (map (fadd (Fin 1)) rendement);
             df2 = df1\<lparr>Cumul := Some cumul\<rparr>;
             drawdown = map (\<lambda>x. fsub x (Fin 1)) (map2 fdiv cumul (cummax cumul));
             df3 = df2\<lparr>Drawdown := Some drawdown\<rparr>;
             max_drawdown = fmul (series_min drawdown) (Fin 100)
         in (Some \<lparr>start_date = start_date, end_date = end_date,
                    duration_days = duration_days, duration_years = duration_years,
                    initial_price = initial_price, final_price = final_price,
                    total_return = total_return, annual_return = annual_return,
                    volatility = volatility, sharpe_ratio = sharpe_ratio,
                    max_daily_return = max_daily_return, min_daily_return = min_daily_return,
                    max_drawdown = max_drawdown\<rparr>,
             df3)))"

text \<open>A frame as \<^verbatim>\<open>load_data\<close> gives it: the price rows, no added column.\<close>

definition frame_of :: "price_record list \<Rightarrow> dataframe" where
  "frame_of rs = \<lparr>price_rows = rs, Rendement = None, Cumul = None, Drawdown = None\<rparr>"

text \<open>A row with the given day and closing price, for examples.\<close>

definition quote :: "int \<Rightarrow> real \<Rightarrow> price_record" where
  "quote d c =
     \<lparr>Date = d, Ouverture = NaN, Plus_Haut = NaN, Plus_Bas = NaN, Cloture = Fin c,
      Variation = None, Volume = Fin 0, Symbole = ''SNTS''\<rparr>"

subsection \<open>The indicators as the specification words them\<close>

text \<open>
  Over the closing prices \<open>c\<close> of a series, as real numbers. The daily return at index
  \<open>i \<ge> 1\<close> is \<open>c[i] / c[i-1] - 1\<close>; the wealth index is the cumulative product of
  \<open>1 + \<close> daily return, from the first return on; the drawdown at each point is the wealth
  index over its running maximum, minus one; the maximum drawdown in percent is the least
  drawdown times one hundred.
\<close>

definition spec_returns :: "real list \<Rightarrow> real list" where
  "spec_returns c = map (\<lambda>i. c ! i / c ! (i - 1) - 1) [1..<length c]"

definition spec_wealth :: "real list \<Rightarrow> real list" where
  "spec_wealth c =
     map (\<lambda>k. prod_list (take k (map (\<lambda>r. 1 + r) (spec_returns c)))) [1..<length c]"

definition spec_running_max :: "real list \<Rightarrow> real list" where
  "spec_running_max w = map (\<lambda>k. Max (set (take k w))) [1..<Suc (length w)]"

definition spec_drawdowns :: "real list \<Rightarrow> real list" where
  "spec_drawdowns c =
     map2 (\<lambda>x m. x / m - 1) (spec_wealth c) (spec_running_max (spec_wealth c))"

definition spec_max_drawdown_pct :: "real list \<Rightarrow> real" where
  "spec_max_drawdown_pct c = Min (set (spec_drawdowns c)) * 100"

section \<open>The per-symbol files (save in the scraper, \<^verbatim>\<open>load_data\<close> in the dashboard)\<close>
















section \<open>Plain instances of the library parsers\<close>

text \<open>
  To run the model on a concrete page the parsers must be given. The instances below
  read plain ASCII text only: unsigned or signed decimal numbers without exponent, and the
  two date layouts \<^verbatim>\<open>DD/MM/YYYY\<close> and \<^verbatim>\<open>YYYY-MM-DD\<close>. On the texts used below they
  give what the Python functions give; they are not used in any general property.
\<close>

definition digit_val :: "char \<Rightarrow> nat option" where
  "digit_val c =
     (let n = (of_char c :: nat) in if 48 \<le> n \<and> n \<le> 57 then Some (n - 48) else None)"

fun digits_val :: "nat \<Rightarrow> string \<Rightarrow> nat option" where
  "digits_val acc [] = Some acc"
| "digits_val acc (c # cs) =
     (case digit_val c of None \<Rightarrow> None | Some d \<Rightarrow> digits_val (10 * acc + d) cs)"

definition nat_of_string :: "string \<Rightarrow> nat option" where
  "nat_of_string s = (if s = [] then None else digits_val 0 s)"

definition plain_int :: "string \<Rightarrow> int option" where
  "plain_int s =
     (if s \<noteq> [] \<and> hd s = CHR ''-'' then map_option (\<lambda>n. - int n) (nat_of_string (tl s))
      else map_option int (nat_of_string s))"

text \<open>Digits, a point, digits; one of the two digit groups may be empty.\<close>

definition plain_unsigned :: "string \<Rightarrow> real option" where
  "plain_unsigned s =
     (let ip = takeWhile (\<lambda>c. c \<noteq> CHR ''.'') s;
          fp = drop 1 (dropWhile (\<lambda>c. c \<noteq> CHR ''.'') s)
      in if ip @ fp = [] then None
         else (case (digits_val 0 ip, digits_val 0 fp) of
                 (Some i, Some f) \<Rightarrow> Some (real i + real f / 10 ^ length fp)
               | _ \<Rightarrow> None))"

definition plain_float :: "string \<Rightarrow> float64 option" where
  "plain_float s =
     (if s \<noteq> [] \<and> hd s = CHR ''-'' then map_option (\<lambda>x. Fin (- x)) (plain_unsigned (tl s))
      else map_option Fin (plain_unsigned s))"

text \<open>The day number of a date, as Python's \<^verbatim>\<open>date.toordinal\<close> computes it.\<close>

definition is_leap :: "nat \<Rightarrow> bool" where
  "is_leap y = (y mod 4 = 0 \<and> (y mod 100 \<noteq> 0 \<or> y mod 400 = 0))"

definition days_in_month :: "nat \<Rightarrow> nat \<Rightarrow> nat" where
  "days_in_month y m =
     (if m = 2 \<and> is_leap y then 29
      else [31, 28, 31, 30, 31, 30, 31, 31, 30, 31, 30, 31] ! (m - 1))"

definition days_before_month :: "nat \<Rightarrow> nat \<Rightarrow> nat" where
  "days_before_month y m =
     [0, 31, 59, 90, 120, 151, 181, 212, 243, 273, 304, 334] ! (m - 1)
       + (if 2 < m \<and> is_leap y then 1 else 0)"

definition days_before_year :: "nat \<Rightarrow> nat" where
  "days_before_year y = (y - 1) * 365 + (y - 1) div 4 - (y - 1) div 100 + (y - 1) div 400"

definition ymd2ord :: "nat \<Rightarrow> nat \<Rightarrow> nat \<Rightarrow> int option" where
  "ymd2ord y m d =
     (if 1 \<le> y \<and> 1 \<le> m \<and> m \<le> 12 \<and> 1 \<le> d \<and> d \<le> days_in_month y m
      then Some (int (days_before_year y + days_before_month y m + d))
      else None)"

definition dmy_date :: "string \<Rightarrow> int option" where
  "dmy_date s =
     (case split_on (CHR ''/'') s of
        [dd, mm, yyyy] \<Rightarrow>
          (if length dd \<in> {1, 2} \<and> length mm \<in> {1, 2} \<and> length yyyy = 4 then
             do {
               d \<leftarrow> nat_of_string dd;
               m \<leftarrow> nat_of_string mm;
               y \<leftarrow> nat_of_string yyyy;
               ymd2ord y m d
             }
           else None)
      | _ \<Rightarrow> None)"

definition iso_date :: "string \<Rightarrow> int option" where
  "iso_date s =
     (case split_on (CHR ''-'') s of
        [yyyy, mm, dd] \<Rightarrow>
          (if length yyyy = 4 \<and> length mm = 2 \<and> length dd = 2 then
             do {
               y \<leftarrow> nat_of_string yyyy;
               m \<leftarrow> nat_of_string mm;
               d \<leftarrow> nat_of_string dd;
               ymd2ord y m d
             }
           else None)
      | _ \<Rightarrow> None)"

definition plain_parsers :: parsers where
  "plain_parsers =
     \<lparr>strptime = dmy_date, py_float = plain_float, py_int = plain_int, to_datetime = iso_date\<rparr>"



subsection \<open>Reading a run\<close>

text \<open>The symbols for which the Sika Finance adapter was called, in the order of the calls.\<close>

fun sika_calls :: "event list \<Rightarrow> string list" where
  "sika_calls [] = []"
| "sika_calls (CallSika s # es) = s # sika_calls es"
| "sika_calls (e # es) = sika_calls es"

text \<open>A small site: one instrument, Sika Finance down, one row on the BRVM page.\<close>

definition example_upstream :: upstream where
  "example_upstream =
     \<lparr>stocks_page = Body (Some [[''SNTS'', ''SONATEL'']]),
      sika = (\<lambda>symbol. Raised),
      brvm = (\<lambda>symbol. if symbol = ''SNTS''
                then Body (Some [[''02/01/2020'', ''100,5'', ''105'', ''99'', ''101'', ''1 000'']])
                else Body None)\<rparr>"

section \<open>Properties of the sector classifier\<close>

lemma sector_of_SONATEL: "get_sector_classification ''SONATEL'' = Some ''Services publics''"
  by (simp add: get_sector_classification_def sectors_def)

lemma sector_of_BRVM_30: "get_sector_classification ''BRVM-30'' = None"
  by (simp add: get_sector_classification_def sectors_def)

lemma sector_of_UNKNOWNCO: "get_sector_classification ''UNKNOWNCO'' = None"
  by (simp add: get_sector_classification_def sectors_def)

text \<open>
  C9, as stated, at the symbol SONATEL: the classifier does not return the text
  "Public Services". The label stored in the table is the French "Services publics".
\<close>

theorem classify_SONATEL_not_english: "classify ''SONATEL'' \<noteq> ''Public Services''"
  by (simp add: classify_def sector_of_SONATEL)

text \<open>
  C9, amended: the classifier is a total function of the symbol alone; it returns
  "Services publics" for SONATEL, "Indice" for BRVM-30 (absent from the table, begins with
  BRVM) and "Autres" for UNKNOWNCO (absent from the table, does not begin with BRVM).
\<close>

theorem classify_examples:
  "classify ''SONATEL'' = ''Services publics'' \<and>
   classify ''BRVM-30'' = ''Indice'' \<and>
   classify ''UNKNOWNCO'' = ''Autres''"
  by (simp add: classify_def sector_of_SONATEL sector_of_BRVM_30 sector_of_UNKNOWNCO startswith_def)

section \<open>Properties of the scraper\<close>

subsection \<open>Sorting, and what the two loops return\<close>

lemma mset_sort_values: "mset (sort_values df) = mset df"
  by (simp add: sort_values_def)

lemma sorted_sort_values: "sorted (map Date (sort_values df))"
  by (simp add: sort_values_def)

lemma length_sort_values: "length (sort_values df) = length df"
  by (simp add: sort_values_def)

lemma set_sort_values: "set (sort_values df) = set df"
  by (simp add: sort_values_def)

lemma sort_values_Nil_iff: "sort_values df = [] \<longleftrightarrow> df = []"
  using length_sort_values [of df] by (metis length_0_conv)


lemma brvm_records_Some:
  "brvm_records P symbol rows = Some df \<Longrightarrow>
     map Some df = map (brvm_record P symbol) (filter (\<lambda>cols. 6 \<le> length cols) rows)"
proof (induction rows arbitrary: df)
  case Nil
  then show ?case by simp
next
  case (Cons cols rows)
  then show ?case
    by (auto split: if_splits option.splits)
qed

lemma brvm_records_None:
  "cols \<in> set rows \<Longrightarrow> 6 \<le> length cols \<Longrightarrow> brvm_record P symbol cols = None \<Longrightarrow>
     brvm_records P symbol rows = None"
  by (induction rows) (auto split: option.splits)

lemma brvm_records_total:
  "\<forall>cols \<in> set rows. 6 \<le> length cols \<longrightarrow> brvm_record P symbol cols \<noteq> None \<Longrightarrow>
     \<exists>df. brvm_records P symbol rows = Some df"
  by (induction rows) (auto split: option.splits)

lemma scrape_brvm_official_Some:
  "brvm_records P symbol rows = Some df \<Longrightarrow>
     scrape_brvm_official P symbol (Body (Some rows)) = sort_values df"
  by (simp add: scrape_brvm_official_def sort_values_def)

lemma sika_records_Some:
  "sika_records P symbol rs = Some df \<Longrightarrow>
     map Some df = map (\<lambda>r. map_option (\<lambda>d. sika_record symbol d r) (to_datetime P (date r))) rs"
proof (induction rs arbitrary: df)
  case Nil
  then show ?case by simp
next
  case (Cons r rs)
  then show ?case by (auto split: option.splits)
qed

lemma scrape_sika_finance_Some:
  "sika_records P symbol rs = Some df \<Longrightarrow>
     scrape_sika_finance P symbol (Body (Some rs)) = sort_values df"
  by (cases rs) (auto simp: scrape_sika_finance_def sort_values_def)

lemmas plain_parser_defs =
  plain_parsers_def dmy_date_def iso_date_def nat_of_string_def digit_val_def ymd2ord_def
  days_in_month_def days_before_month_def days_before_year_def is_leap_def
  plain_float_def plain_unsigned_def plain_int_def

lemmas brvm_eval =
  scrape_brvm_official_def brvm_record_def strip_def isspace_def replace_char_def
  remove_char_def float_or_none_def int_or_zero_def sort_values_def

lemmas sika_eval =
  scrape_sika_finance_def sika_record_def sort_values_def

lemma brvm_unparseable_row_general:
  "cols \<in> set rows \<Longrightarrow> 6 \<le> length cols \<Longrightarrow> brvm_record P symbol cols = None \<Longrightarrow>
     scrape_brvm_official P symbol (Body (Some rows)) = []"
  by (simp add: scrape_brvm_official_def brvm_records_None)

lemma brvm_record_empty_close:
  "brvm_record P symbol cols = Some r \<Longrightarrow> strip (cols ! 4) = [] \<Longrightarrow> Cloture r = NaN"
  by (auto simp: brvm_record_def Let_def float_or_none_def replace_char_def
      split: Option.bind_splits)

subsection \<open>The resolver\<close>

lemma resolve_symbol_both:
  "resolve_symbol P W True True symbol st =
    (let df_sika = scrape_sika_finance P symbol (sika W symbol);
         df_brvm = scrape_brvm_official P symbol (brvm W symbol);
         series = (if df_sika \<noteq> [] then df_sika else df_brvm)
     in st\<lparr>files := (if series \<noteq> [] then (files st)(output_path symbol \<mapsto> series) else files st),
         trace := trace st @ [CallSika symbol] @ (if df_sika = [] then [CallBrvm symbol] else [])
                  @ [if series \<noteq> [] then Saved symbol (output_path symbol) else NoData symbol, Sleep]\<rparr>)"
  by (simp add: resolve_symbol_def emit_def Let_def)

lemma sika_calls_append: "sika_calls (xs @ ys) = sika_calls xs @ sika_calls ys"
  by (induction xs rule: sika_calls.induct) auto

lemma sika_calls_step:
  "sika_calls (trace (resolve_symbol P W True True symbol st)) = sika_calls (trace st) @ [symbol]"
  by (simp add: resolve_symbol_both Let_def sika_calls_append)

lemma sika_calls_fold:
  "sika_calls (trace (fold (resolve_symbol P W True True) syms st)) = sika_calls (trace st) @ syms"
  by (induction syms arbitrary: st) (auto simp: sika_calls_step)

text \<open>
  C1: with both sources enabled, as \<^verbatim>\<open>main\<close> calls it, the body of the loop for one symbol
  calls the Sika Finance adapter first and the BRVM adapter only if the Sika result is
  empty; the frame it saves is the first non-empty of the two results, unchanged; when both
  are empty it writes no file and logs the symbol as without data. The run performs this
  for every symbol in turn: the symbols for which Sika Finance was called are exactly the
  symbols of the run, in order.
\<close>

theorem resolver_first_nonempty_source:
  "resolve_symbol P W True True symbol st =
    (let df_sika = scrape_sika_finance P symbol (sika W symbol);
         df_brvm = scrape_brvm_official P symbol (brvm W symbol);
         series = (if df_sika \<noteq> [] then df_sika else df_brvm)
     in st\<lparr>files := (if series \<noteq> [] then (files st)(output_path symbol \<mapsto> series) else files st),
         trace := trace st @ [CallSika symbol] @ (if df_sika = [] then [CallBrvm symbol] else [])
                  @ [if series \<noteq> [] then Saved symbol (output_path symbol) else NoData symbol, Sleep]\<rparr>)
   \<and> sika_calls (trace (get_all_historical_data P W True True st)) = sika_calls (trace st) @ all_symbols W"
  by (simp only: resolve_symbol_both get_all_historical_data_def sika_calls_fold simp_thms)

text \<open>The run on the small site, from an empty directory.\<close>

theorem resolver_first_nonempty_source_witness:
  "get_all_historical_data plain_parsers example_upstream True True \<lparr>files = Map.empty, trace = []\<rparr> =
     \<lparr>files = [''data/SNTS_historical.csv'' \<mapsto>
         [\<lparr>Date = 737426, Ouverture = Fin (201 / 2), Plus_Haut = Fin 105, Plus_Bas = Fin 99,
           Cloture = Fin 101, Variation = None, Volume = Fin 1000, Symbole = ''SNTS''\<rparr>]],
      trace = [CallSika ''SNTS'', CallBrvm ''SNTS'', Saved ''SNTS'' ''data/SNTS_historical.csv'', Sleep,
               CallSika ''BRVM-Composite'', CallBrvm ''BRVM-Composite'', NoData ''BRVM-Composite'', Sleep,
               CallSika ''BRVM-30'', CallBrvm ''BRVM-30'', NoData ''BRVM-30'', Sleep]\<rparr>"
proof -
  have syms: "all_symbols example_upstream = [''SNTS'', ''BRVM-Composite'', ''BRVM-30'']"
    by (simp add: all_symbols_def example_upstream_def get_all_stocks_def indices_def strip_def isspace_def)
  have sika: "\<And>s. scrape_sika_finance plain_parsers s (sika example_upstream s) = []"
    by (simp add: example_upstream_def scrape_sika_finance_def)
  have b1: "scrape_brvm_official plain_parsers ''SNTS'' (brvm example_upstream ''SNTS'') =
         [\<lparr>Date = 737426, Ouverture = Fin (201 / 2), Plus_Haut = Fin 105, Plus_Bas = Fin 99,
           Cloture = Fin 101, Variation = None, Volume = Fin 1000, Symbole = ''SNTS''\<rparr>]"
    by (simp add: example_upstream_def brvm_eval plain_parser_defs)
  have b2: "scrape_brvm_official plain_parsers ''BRVM-Composite'' (brvm example_upstream ''BRVM-Composite'') = []"
    by (simp add: example_upstream_def scrape_brvm_official_def)
  have b3: "scrape_brvm_official plain_parsers ''BRVM-30'' (brvm example_upstream ''BRVM-30'') = []"
    by (simp add: example_upstream_def scrape_brvm_official_def)
  have step: "\<And>symbol st. resolve_symbol plain_parsers example_upstream True True symbol st =
    (let df_sika = scrape_sika_finance plain_parsers symbol (sika example_upstream symbol);
         df_brvm = scrape_brvm_official plain_parsers symbol (brvm example_upstream symbol);
         series = (if df_sika \<noteq> [] then df_sika else df_brvm)
     in st\<lparr>files := (if series \<noteq> [] then (files st)(output_path symbol \<mapsto> series) else files st),
         trace := trace st @ [CallSika symbol] @ (if df_sika = [] then [CallBrvm symbol] else [])
                  @ [if series \<noteq> [] then Saved symbol (output_path symbol) else NoData symbol, Sleep]\<rparr>)"
    using resolver_first_nonempty_source [of plain_parsers example_upstream] by blast
  show ?thesis
    by (simp add: get_all_historical_data_def syms step sika b1 b2 b3 Let_def output_path_def replace_char_def)
qed

subsection \<open>Rows that do not parse\<close>

text \<open>
  C5, at a page with one good row and one row whose date does not parse: the adapter
  returns the empty frame, although the good row alone gives one record.
\<close>

theorem brvm_unparseable_row_empties_fetch:
  "scrape_brvm_official plain_parsers ''SNTS''
     (Body (Some [[''02/01/2020'', ''100,5'', ''105'', ''99'', ''101'', ''1 000''],
                  [''n/a'', ''100'', ''105'', ''99'', ''101'', ''10'']])) = []
   \<and> scrape_brvm_official plain_parsers ''SNTS''
     (Body (Some [[''02/01/2020'', ''100,5'', ''105'', ''99'', ''101'', ''1 000'']])) =
       [\<lparr>Date = 737426, Ouverture = Fin (201 / 2), Plus_Haut = Fin 105, Plus_Bas = Fin 99,
         Cloture = Fin 101, Variation = None, Volume = Fin 1000, Symbole = ''SNTS''\<rparr>]"
  by (simp add: brvm_eval plain_parser_defs)

subsection \<open>Rows without a closing price\<close>

text \<open>
  C6, as stated, at a page whose only row has an empty closing-price cell: the record is
  returned, with a missing closing price.
\<close>

theorem brvm_empty_close_counterexample:
  "map Cloture (scrape_brvm_official plain_parsers ''SNTS''
     (Body (Some [[''02/01/2020'', ''100'', ''105'', ''99'', [], ''10'']]))) = [NaN]"
  by (simp add: brvm_eval plain_parser_defs)

lemma price_text_empty: "price_text cell = [] \<longleftrightarrow> strip cell = []"
  by (simp add: price_text_def replace_char_def)

lemma brvm_record_of_parsing_row:
  assumes "row_parses P cols"
  shows "\<exists>r. brvm_record P symbol cols = Some r
      \<and> Date r = the (strptime P (strip (cols ! 0)))
      \<and> Ouverture r = (if strip (cols ! 1) = [] then NaN else the (py_float P (price_text (cols ! 1))))
      \<and> Plus_Haut r = (if strip (cols ! 2) = [] then NaN else the (py_float P (price_text (cols ! 2))))
      \<and> Plus_Bas r = (if strip (cols ! 3) = [] then NaN else the (py_float P (price_text (cols ! 3))))
      \<and> Cloture r = (if strip (cols ! 4) = [] then NaN else the (py_float P (price_text (cols ! 4))))
      \<and> Symbole r = symbol"
proof -
  from assms obtain d where d: "strptime P (strip (cols ! 0)) = Some d"
    by (auto simp: row_parses_def)
  have f: "\<exists>x. float_or_none P (price_text (cols ! i)) = Some x
         \<and> x = (if strip (cols ! i) = [] then NaN else the (py_float P (price_text (cols ! i))))"
    if "i \<in> {1, 2, 3, 4}" for i
    using assms that by (auto simp: row_parses_def float_or_none_def price_text_empty)
  have "\<exists>v. int_or_zero P (volume_text (cols ! 5)) = Some v"
  proof (cases "volume_text (cols ! 5) = []")
    case True
    then show ?thesis by (simp add: int_or_zero_def)
  next
    case False
    then show ?thesis using assms by (auto simp: row_parses_def int_or_zero_def)
  qed
  then obtain v where v: "int_or_zero P (volume_text (cols ! 5)) = Some v" ..
  from f [of 1] f [of 2] f [of 3] f [of 4] d v show ?thesis
    by (auto simp: brvm_record_def Let_def price_text_def volume_text_def)
qed

text \<open>
  C6, amended: when the cells of every row of at least six cells parse (the date, each
  price cell that is not empty, the volume when it is not empty), the BRVM adapter returns
  one record for each of these rows. An empty cell never fails and never drops the row: the
  record of a row has a missing value in each of the columns Ouverture, Plus_Haut, Plus_Bas
  and Cloture whose cell is empty once stripped, and the parsed number in the others. The
  closing price is treated exactly as the opening, high and low prices are.
\<close>

theorem brvm_missing_close_is_kept:
  assumes "\<forall>cols \<in> set rows. 6 \<le> length cols \<longrightarrow> row_parses P cols"
    and "cols \<in> set rows" and "6 \<le> length cols"
  shows "length (scrape_brvm_official P symbol (Body (Some rows)))
           = length (filter (\<lambda>cols. 6 \<le> length cols) rows)
         \<and> (\<exists>r \<in> set (scrape_brvm_official P symbol (Body (Some rows))).
               brvm_record P symbol cols = Some r
               \<and> Ouverture r = (if strip (cols ! 1) = [] then NaN else the (py_float P (price_text (cols ! 1))))
               \<and> Plus_Haut r = (if strip (cols ! 2) = [] then NaN else the (py_float P (price_text (cols ! 2))))
               \<and> Plus_Bas r = (if strip (cols ! 3) = [] then NaN else the (py_float P (price_text (cols ! 3))))
               \<and> Cloture r = (if strip (cols ! 4) = [] then NaN else the (py_float P (price_text (cols ! 4)))))"
proof -
  let ?data = "filter (\<lambda>cols. 6 \<le> length cols) rows"
  have "\<forall>cols \<in> set rows. 6 \<le> length cols \<longrightarrow> brvm_record P symbol cols \<noteq> None"
    using assms(1) brvm_record_of_parsing_row [of P _ symbol] by fastforce
  then obtain df where df: "brvm_records P symbol rows = Some df"
    using brvm_records_total by blast
  have m: "map Some df = map (brvm_record P symbol) ?data"
    using df by (rule brvm_records_Some)
  have res: "scrape_brvm_official P symbol (Body (Some rows)) = sort_values df"
    using df by (rule scrape_brvm_official_Some)
  have len: "length df = length ?data"
    using m by (metis length_map)
  have "row_parses P cols" using assms by blast
  then obtain r where r: "brvm_record P symbol cols = Some r"
      "Ouverture r = (if strip (cols ! 1) = [] then NaN else the (py_float P (price_text (cols ! 1))))"
      "Plus_Haut r = (if strip (cols ! 2) = [] then NaN else the (py_float P (price_text (cols ! 2))))"
      "Plus_Bas r = (if strip (cols ! 3) = [] then NaN else the (py_float P (price_text (cols ! 3))))"
      "Cloture r = (if strip (cols ! 4) = [] then NaN else the (py_float P (price_text (cols ! 4))))"
    using brvm_record_of_parsing_row [of P cols symbol] by blast
  have "cols \<in> set ?data" using assms(2,3) by simp
  then have "brvm_record P symbol cols \<in> set (map Some df)"
    using m by simp
  then have "r \<in> set df" using r(1) by auto
  then have "r \<in> set (scrape_brvm_official P symbol (Body (Some rows)))"
    by (simp add: res set_sort_values)
  moreover have "length (scrape_brvm_official P symbol (Body (Some rows))) = length ?data"
    by (simp add: res length_sort_values len)
  ultimately show ?thesis
    using r by (intro conjI bexI [of _ r])
qed

text \<open>
  A row whose opening cell is empty, whose low cell is a space and whose closing cell is a
  no-break space: it is returned, with these three prices missing.
\<close>

theorem brvm_missing_close_is_kept_witness:
  "scrape_brvm_official plain_parsers ''SNTS''
     (Body (Some [[''02/01/2020'', [], ''105'', '' '', [CHR 0xA0], ''10'']])) =
     [\<lparr>Date = 737426, Ouverture = NaN, Plus_Haut = Fin 105, Plus_Bas = NaN, Cloture = NaN,
       Variation = None, Volume = Fin 10, Symbole = ''SNTS''\<rparr>]"
proof -
  let ?cols = "[''02/01/2020'', [], ''105'', '' '', [CHR 0xA0], ''10'']"
  have s: "strip ''02/01/2020'' = ''02/01/2020''" "strip [] = []" "strip ''105'' = ''105''"
      "strip '' '' = []" "strip [CHR 0xA0] = []" "strip ''10'' = ''10''"
    by (simp_all add: strip_def isspace_def)
  have rec: "brvm_record plain_parsers ''SNTS'' ?cols =
      Some \<lparr>Date = 737426, Ouverture = NaN, Plus_Haut = Fin 105, Plus_Bas = NaN, Cloture = NaN,
       Variation = None, Volume = Fin 10, Symbole = ''SNTS''\<rparr>"
    by (simp add: brvm_record_def s replace_char_def remove_char_def float_or_none_def
        int_or_zero_def plain_parser_defs)
  have p: "\<forall>cols \<in> set [?cols]. 6 \<le> length cols \<longrightarrow> row_parses plain_parsers cols"
    by (simp add: row_parses_def price_text_def volume_text_def s replace_char_def remove_char_def
        plain_parser_defs)
  obtain r where r: "r \<in> set (scrape_brvm_official plain_parsers ''SNTS'' (Body (Some [?cols])))"
      "brvm_record plain_parsers ''SNTS'' ?cols = Some r"
    using brvm_missing_close_is_kept [OF p, of ?cols "''SNTS''"] by auto
  have l: "length (scrape_brvm_official plain_parsers ''SNTS'' (Body (Some [?cols]))) = 1"
    using brvm_missing_close_is_kept [OF p, of ?cols "''SNTS''"] by simp
  from l obtain x where x: "scrape_brvm_official plain_parsers ''SNTS'' (Body (Some [?cols])) = [x]"
    by (cases "scrape_brvm_official plain_parsers ''SNTS'' (Body (Some [?cols]))") auto
  with r(1) have "x = r" by simp
  with r(2) rec x show ?thesis by simp
qed

subsection \<open>Rows with the same date\<close>

text \<open>
  C4, as stated, at two rows for the same date: both adapters return two records for that
  date.
\<close>

theorem adapters_keep_duplicate_dates_counterexample:
  "map Date (scrape_brvm_official plain_parsers ''SNTS''
     (Body (Some [[''02/01/2020'', ''100'', ''105'', ''99'', ''101'', ''10''],
                  [''02/01/2020'', ''100'', ''106'', ''99'', ''102'', ''20'']]))) = [737426, 737426]
   \<and> map Date (scrape_sika_finance plain_parsers ''SNTS''
     (Body (Some [\<lparr>date = ''2020-01-02'', ouverture = Fin 100, plus_haut = Fin 105, plus_bas = Fin 99,
                    cloture = Fin 101, variation = Fin 0, volume = Fin 10\<rparr>,
                  \<lparr>date = ''2020-01-02'', ouverture = Fin 100, plus_haut = Fin 106, plus_bas = Fin 99,
                    cloture = Fin 102, variation = Fin 1, volume = Fin 20\<rparr>]))) = [737426, 737426]"
  by (simp add: brvm_eval sika_eval plain_parser_defs)

text \<open>
  C4, amended: neither adapter removes a record. Each returns the records it parsed, all
  of them (the same multiset), one for every row of at least six cells of the BRVM table
  and one for every object of the Sika Finance array, in ascending order of date; records
  with equal dates are all kept.
\<close>

theorem adapters_keep_duplicate_dates:
  "(brvm_records P symbol rows = Some df \<longrightarrow>
      mset (scrape_brvm_official P symbol (Body (Some rows))) = mset df \<and>
      length (scrape_brvm_official P symbol (Body (Some rows)))
        = length (filter (\<lambda>cols. 6 \<le> length cols) rows) \<and>
      sorted (map Date (scrape_brvm_official P symbol (Body (Some rows)))))
   \<and> (sika_records P symbol intraday = Some df' \<longrightarrow>
      mset (scrape_sika_finance P symbol (Body (Some intraday))) = mset df' \<and>
      length (scrape_sika_finance P symbol (Body (Some intraday))) = length intraday \<and>
      sorted (map Date (scrape_sika_finance P symbol (Body (Some intraday)))))"
proof (intro conjI impI)
  assume b: "brvm_records P symbol rows = Some df"
  have "length (map Some df) = length (map (brvm_record P symbol) (filter (\<lambda>cols. 6 \<le> length cols) rows))"
    using brvm_records_Some [OF b] by simp
  then show "length (scrape_brvm_official P symbol (Body (Some rows)))
        = length (filter (\<lambda>cols. 6 \<le> length cols) rows)"
    by (simp add: scrape_brvm_official_Some [OF b] length_sort_values)
  show "mset (scrape_brvm_official P symbol (Body (Some rows))) = mset df"
    by (simp add: scrape_brvm_official_Some [OF b] mset_sort_values)
  show "sorted (map Date (scrape_brvm_official P symbol (Body (Some rows))))"
    by (simp add: scrape_brvm_official_Some [OF b] sorted_sort_values)
next
  assume s: "sika_records P symbol intraday = Some df'"
  have "length (map Some df') =
      length (map (\<lambda>r. map_option (\<lambda>d. sika_record symbol d r) (to_datetime P (date r))) intraday)"
    using sika_records_Some [OF s] by simp
  then show "length (scrape_sika_finance P symbol (Body (Some intraday))) = length intraday"
    by (simp add: scrape_sika_finance_Some [OF s] length_sort_values)
  show "mset (scrape_sika_finance P symbol (Body (Some intraday))) = mset df'"
    by (simp add: scrape_sika_finance_Some [OF s] mset_sort_values)
  show "sorted (map Date (scrape_sika_finance P symbol (Body (Some intraday))))"
    by (simp add: scrape_sika_finance_Some [OF s] sorted_sort_values)
qed

theorem adapters_keep_duplicate_dates_witness:
  "mset (scrape_brvm_official plain_parsers ''SNTS''
     (Body (Some [[''02/01/2020'', ''100'', ''105'', ''99'', ''101'', ''10''],
                  [''02/01/2020'', ''100'', ''106'', ''99'', ''102'', ''20'']]))) =
     {#\<lparr>Date = 737426, Ouverture = Fin 100, Plus_Haut = Fin 105, Plus_Bas = Fin 99,
         Cloture = Fin 101, Variation = None, Volume = Fin 10, Symbole = ''SNTS''\<rparr>,
       \<lparr>Date = 737426, Ouverture = Fin 100, Plus_Haut = Fin 106, Plus_Bas = Fin 99,
         Cloture = Fin 102, Variation = None, Volume = Fin 20, Symbole = ''SNTS''\<rparr>#}
   \<and> mset (scrape_sika_finance plain_parsers ''SNTS''
     (Body (Some [\<lparr>date = ''2020-01-02'', ouverture = Fin 100, plus_haut = Fin 105, plus_bas = Fin 99,
                    cloture = Fin 101, variation = Fin 0, volume = Fin 10\<rparr>,
                  \<lparr>date = ''2020-01-02'', ouverture = Fin 100, plus_haut = Fin 106, plus_bas = Fin 99,
                    cloture = Fin 102, variation = Fin 1, volume = Fin 20\<rparr>]))) =
     {#\<lparr>Date = 737426, Ouverture = Fin 100, Plus_Haut = Fin 105, Plus_Bas = Fin 99,
         Cloture = Fin 101, Variation = Some (Fin 0), Volume = Fin 10, Symbole = ''SNTS''\<rparr>,
       \<lparr>Date = 737426, Ouverture = Fin 100, Plus_Haut = Fin 106, Plus_Bas = Fin 99,
         Cloture = Fin 102, Variation = Some (Fin 1), Volume = Fin 20, Symbole = ''SNTS''\<rparr>#}"
proof -
  have b: "brvm_records plain_parsers ''SNTS''
      [[''02/01/2020'', ''100'', ''105'', ''99'', ''101'', ''10''],
       [''02/01/2020'', ''100'', ''106'', ''99'', ''102'', ''20'']] =
      Some [\<lparr>Date = 737426, Ouverture = Fin 100, Plus_Haut = Fin 105, Plus_Bas = Fin 99,
         Cloture = Fin 101, Variation = None, Volume = Fin 10, Symbole = ''SNTS''\<rparr>,
       \<lparr>Date = 737426, Ouverture = Fin 100, Plus_Haut = Fin 106, Plus_Bas = Fin 99,
         Cloture = Fin 102, Variation = None, Volume = Fin 20, Symbole = ''SNTS''\<rparr>]"
    by (simp add: brvm_eval plain_parser_defs)
  have s: "sika_records plain_parsers ''SNTS''
      [\<lparr>date = ''2020-01-02'', ouverture = Fin 100, plus_haut = Fin 105, plus_bas = Fin 99,
         cloture = Fin 101, variation = Fin 0, volume = Fin 10\<rparr>,
       \<lparr>date = ''2020-01-02'', ouverture = Fin 100, plus_haut = Fin 106, plus_bas = Fin 99,
         cloture = Fin 102, variation = Fin 1, volume = Fin 20\<rparr>] =
      Some [\<lparr>Date = 737426, Ouverture = Fin 100, Plus_Haut = Fin 105, Plus_Bas = Fin 99,
         Cloture = Fin 101, Variation = Some (Fin 0), Volume = Fin 10, Symbole = ''SNTS''\<rparr>,
       \<lparr>Date = 737426, Ouverture = Fin 100, Plus_Haut = Fin 106, Plus_Bas = Fin 99,
         Cloture = Fin 102, Variation = Some (Fin 1), Volume = Fin 20, Symbole = ''SNTS''\<rparr>]"
    by (simp add: sika_eval plain_parser_defs)
  note kept = adapters_keep_duplicate_dates
  show ?thesis
    using kept [THEN conjunct1, THEN mp, OF b, THEN conjunct1]
      kept [THEN conjunct2, THEN mp, OF s, THEN conjunct1]
    by simp
qed

section \<open>Properties of the performance indicators\<close>

subsection \<open>The series methods on prices that are present\<close>

lemma ffill_from_Fin: "ffill_from prev (map Fin c) = map Fin c"
  by (induction c arbitrary: prev) auto

lemma ffill_Fin: "ffill (map Fin c) = map Fin c"
  by (simp add: ffill_def ffill_from_Fin)

lemma length_ffill_from: "length (ffill_from p xs) = length xs"
  by (induction xs arbitrary: p) auto

lemma length_pct_change: "length (pct_change xs) = length xs"
proof (cases xs)
  case Nil
  then show ?thesis by (simp add: pct_change_def ffill_def shift1_def)
next
  case (Cons x ys)
  then have "ffill xs \<noteq> []"
    using length_ffill_from [of NaN xs] by (auto simp: ffill_def)
  then show ?thesis
    by (simp add: pct_change_def Let_def shift1_def ffill_def length_ffill_from)
qed

lemma pct_change_Fin:
  assumes "c \<noteq> []" and "0 \<notin> set c"
  shows "pct_change (map Fin c) = NaN # map Fin (spec_returns c)"
proof (rule nth_equalityI)
  show "length (pct_change (map Fin c)) = length (NaN # map Fin (spec_returns c))"
  proof -
    have "0 < length c" using assms(1) by simp
    then show ?thesis
      by (simp add: length_pct_change spec_returns_def)
  qed
next
  fix i assume "i < length (pct_change (map Fin c))"
  then have i: "i < length c" by (simp add: length_pct_change)
  have sh: "shift1 (map Fin c) = NaN # butlast (map Fin c)"
    using assms(1) by (simp add: shift1_def)
  have nz: "c ! (i - 1) \<noteq> 0"
    using assms(2) i by (metis less_imp_diff_less nth_mem)
  show "pct_change (map Fin c) ! i = (NaN # map Fin (spec_returns c)) ! i"
  proof (cases i)
    case 0
    then show ?thesis
      using i by (simp add: pct_change_def Let_def ffill_Fin sh fsub_def)
  next
    case (Suc j)
    then have "butlast (map Fin c) ! j = Fin (c ! j)"
      using i by (simp add: nth_butlast)
    then show ?thesis
      using i Suc nz by (simp add: pct_change_def Let_def ffill_Fin sh fsub_def spec_returns_def)
  qed
qed

lemma cumprod_from_Fin:
  "cumprod_from (Fin a) (map Fin xs) =
     map (\<lambda>k. Fin (a * prod_list (take k xs))) [1..<Suc (length xs)]"
proof (induction xs arbitrary: a)
  case Nil
  then show ?case by simp
next
  case (Cons x xs)
  have "map (\<lambda>k. Fin (a * prod_list (take k (x # xs)))) [1..<Suc (length (x # xs))] =
        Fin (a * x) # map (\<lambda>k. Fin (a * prod_list (take k (x # xs)))) (map Suc [1..<Suc (length xs)])"
    by (simp add: upt_conv_Cons map_Suc_upt del: upt_Suc)
  also have "\<dots> = Fin (a * x) # map (\<lambda>k. Fin (a * x * prod_list (take k xs))) [1..<Suc (length xs)]"
    by (simp add: mult.assoc)
  finally show ?case
    using Cons.IH [of "a * x"] by simp
qed

lemma cummax_from_Fin:
  "cummax_from (Fin m) (map Fin xs) =
     map (\<lambda>k. Fin (Max (insert m (set (take k xs))))) [1..<Suc (length xs)]"
proof (induction xs arbitrary: m)
  case Nil
  then show ?case by simp
next
  case (Cons x xs)
  have step: "fmax (Fin m) (Fin x) = Fin (max m x)"
    by (simp add: fmax_def max_def)
  have "map (\<lambda>k. Fin (Max (insert m (set (take k (x # xs)))))) [1..<Suc (length (x # xs))] =
        Fin (max m x) # map (\<lambda>k. Fin (Max (insert m (set (take k (x # xs)))))) (map Suc [1..<Suc (length xs)])"
    by (simp add: upt_conv_Cons map_Suc_upt max.commute del: upt_Suc)
  also have "\<dots> = Fin (max m x) # map (\<lambda>k. Fin (Max (insert (max m x) (set (take k xs))))) [1..<Suc (length xs)]"
  proof -
    have "Max (insert m (insert x A)) = Max (insert (max m x) A)" if "finite A" for A :: "real set"
      using that by (cases "A = {}") (auto simp: max.assoc max.commute max.left_commute)
    then show ?thesis by simp
  qed
  finally show ?case
    using Cons.IH [of "max m x"] by (simp add: step)
qed

lemma cummax_Fin:
  "cummax (map Fin xs) = map Fin (spec_running_max xs)"
proof (cases xs)
  case Nil
  then show ?thesis by (simp add: cummax_def spec_running_max_def)
next
  case (Cons x ys)
  have "fmax NInf (Fin x) = Fin x" by (simp add: fmax_def)
  then have "cummax (map Fin xs) = Fin x # cummax_from (Fin x) (map Fin ys)"
    using Cons by (simp add: cummax_def)
  also have "\<dots> = Fin x # map (\<lambda>k. Fin (Max (insert x (set (take k ys))))) [1..<Suc (length ys)]"
    by (simp add: cummax_from_Fin)
  also have "\<dots> = map Fin (spec_running_max xs)"
    using Cons by (simp add: spec_running_max_def upt_conv_Cons map_Suc_upt [symmetric] del: upt_Suc)
  finally show ?thesis .
qed

lemma length_spec_returns: "length (spec_returns c) = length c - 1"
  by (simp add: spec_returns_def)

lemma length_spec_wealth: "length (spec_wealth c) = length c - 1"
  by (simp add: spec_wealth_def)

lemma length_spec_running_max: "length (spec_running_max w) = length w"
  by (simp add: spec_running_max_def del: upt_Suc)

lemma length_spec_drawdowns: "length (spec_drawdowns c) = length c - 1"
  by (simp add: spec_drawdowns_def length_spec_wealth length_spec_running_max)

lemma growth_nonzero:
  assumes "0 \<notin> set c"
  shows "0 \<notin> set (map (\<lambda>r. 1 + r) (spec_returns c))"
proof -
  have "1 + (c ! i / c ! (i - 1) - 1) \<noteq> 0" if "1 \<le> i" "i < length c" for i
  proof -
    have "c ! i \<noteq> 0" "c ! (i - 1) \<noteq> 0"
      using assms that by (metis nth_mem, metis less_imp_diff_less nth_mem)
    then show ?thesis by simp
  qed
  then show ?thesis
    by (auto simp: spec_returns_def)
qed

lemma spec_wealth_nonzero:
  assumes "0 \<notin> set c"
  shows "0 \<notin> set (spec_wealth c)"
proof -
  let ?g = "map (\<lambda>r. 1 + r) (spec_returns c)"
  have "prod_list (take k ?g) \<noteq> 0" for k
    using growth_nonzero [OF assms] by (metis in_set_takeD prod_list_zero_iff)
  then show ?thesis
    by (auto simp: spec_wealth_def)
qed

lemma spec_running_max_nonzero:
  assumes "0 \<notin> set w"
  shows "0 \<notin> set (spec_running_max w)"
proof -
  have "Max (set (take k w)) \<noteq> 0" if "1 \<le> k" "k < Suc (length w)" for k
  proof -
    have "take k w \<noteq> []" using that by auto
    then have "Max (set (take k w)) \<in> set (take k w)"
      by (intro Max_in) auto
    then have "Max (set (take k w)) \<in> set w"
      by (rule in_set_takeD)
    with assms show ?thesis by metis
  qed
  then show ?thesis
    by (auto simp: spec_running_max_def simp del: upt_Suc)
qed

lemma cumprod_growth:
  assumes "c \<noteq> []"
  shows "cumprod (map (fadd (Fin 1)) (NaN # map Fin (spec_returns c))) = NaN # map Fin (spec_wealth c)"
proof -
  let ?g = "map (\<lambda>r. 1 + r) (spec_returns c)"
  have a: "map (fadd (Fin 1)) (NaN # map Fin (spec_returns c)) = NaN # map Fin ?g"
    by (simp add: o_def)
  have b: "cumprod (NaN # map Fin ?g) = NaN # cumprod_from (Fin 1) (map Fin ?g)"
    by (simp add: cumprod_def)
  have w: "cumprod_from (Fin 1) (map Fin ?g) = map Fin (spec_wealth c)"
  proof -
    have len: "Suc (length ?g) = length c"
      using assms by (simp add: length_spec_returns)
    have "cumprod_from (Fin 1) (map Fin ?g) =
            map (\<lambda>k. Fin (1 * prod_list (take k ?g))) [1..<Suc (length ?g)]"
      by (rule cumprod_from_Fin)
    also have "\<dots> = map Fin (spec_wealth c)"
      unfolding len by (simp add: spec_wealth_def)
    finally show ?thesis .
  qed
  show ?thesis unfolding a b w by (rule refl)
qed

lemma cummax_NaN_Cons: "cummax (NaN # xs) = NaN # cummax xs"
  by (simp add: cummax_def)

lemma map2_fdiv_Fin:
  assumes "0 \<notin> set ms" and "length ws = length ms"
  shows "map2 fdiv (map Fin ws) (map Fin ms) = map Fin (map2 (/) ws ms)"
  using assms(2,1) by (induction ws ms rule: list_induct2) auto

lemma fold_fmin_Fin: "fold fmin (map Fin xs) (Fin x) = Fin (fold min xs x)"
  by (induction xs arbitrary: x) (auto simp: fmin_def min_def)

lemma fold_fmax_Fin: "fold fmax (map Fin xs) (Fin x) = Fin (fold max xs x)"
  by (induction xs arbitrary: x) (auto simp: fmax_def max_def)

lemma filter_notna_Fin: "filter notna (map Fin xs) = map Fin xs"
  by (induction xs) (auto simp: notna_def)

lemma series_min_Fin:
  assumes "ds \<noteq> []"
  shows "series_min (NaN # map Fin ds) = Fin (Min (set ds))"
proof -
  obtain d ds' where ds: "ds = d # ds'" using assms by (cases ds) auto
  have "series_min (NaN # map Fin ds) = fold fmin (map Fin ds') (Fin d)"
    by (simp add: series_min_def notna_def ds filter_notna_Fin [unfolded notna_def])
  also have "\<dots> = Fin (fold min ds' d)" by (rule fold_fmin_Fin)
  also have "fold min ds' d = Min (set ds)" unfolding ds by (rule Min.set_eq_fold [symmetric])
  finally show ?thesis .
qed

lemma drawdown_column:
  assumes "2 \<le> length c" and "0 \<notin> set c"
  shows "pct_change (map Fin c) = NaN # map Fin (spec_returns c)"
    and "cumprod (map (fadd (Fin 1)) (pct_change (map Fin c))) = NaN # map Fin (spec_wealth c)"
    and "map (\<lambda>x. fsub x (Fin 1))
           (map2 fdiv (cumprod (map (fadd (Fin 1)) (pct_change (map Fin c))))
              (cummax (cumprod (map (fadd (Fin 1)) (pct_change (map Fin c))))))
         = NaN # map Fin (spec_drawdowns c)"
proof -
  have ne: "c \<noteq> []" using assms(1) by auto
  show r: "pct_change (map Fin c) = NaN # map Fin (spec_returns c)"
    using ne assms(2) by (rule pct_change_Fin)
  show w: "cumprod (map (fadd (Fin 1)) (pct_change (map Fin c))) = NaN # map Fin (spec_wealth c)"
    unfolding r using ne by (rule cumprod_growth)
  let ?w = "spec_wealth c"
  let ?m = "spec_running_max ?w"
  have m: "cummax (NaN # map Fin ?w) = NaN # map Fin ?m"
    by (simp add: cummax_NaN_Cons cummax_Fin)
  have nz: "0 \<notin> set ?m"
    using assms(2) by (intro spec_running_max_nonzero spec_wealth_nonzero)
  have q: "map2 fdiv (map Fin ?w) (map Fin ?m) = map Fin (map2 (/) ?w ?m)"
    using nz by (rule map2_fdiv_Fin) (simp add: length_spec_running_max)
  have "map (\<lambda>x. fsub x (Fin 1)) (map2 fdiv (NaN # map Fin ?w) (NaN # map Fin ?m))
        = NaN # map (\<lambda>x. fsub x (Fin 1)) (map Fin (map2 (/) ?w ?m))"
    by (simp add: q fsub_def)
  also have "map (\<lambda>x. fsub x (Fin 1)) (map Fin (map2 (/) ?w ?m)) = map Fin (spec_drawdowns c)"
    by (simp add: spec_drawdowns_def fsub_def o_def split_def)
  finally show "map (\<lambda>x. fsub x (Fin 1))
           (map2 fdiv (cumprod (map (fadd (Fin 1)) (pct_change (map Fin c))))
              (cummax (cumprod (map (fadd (Fin 1)) (pct_change (map Fin c))))))
         = NaN # map Fin (spec_drawdowns c)"
    unfolding w m .
qed

subsection \<open>What the function returns\<close>

lemma calculate_performance_runs:
  "2 \<le> length (price_rows df) \<Longrightarrow> \<exists>m df'. calculate_performance df = (Some m, df')"
  by (auto simp: calculate_performance_def Let_def)

lemma calculate_performance_frame:
  assumes "calculate_performance df = (Some m, df')"
  shows "price_rows df' = price_rows df"
    and "Rendement df' = Some (pct_change (map Cloture (price_rows df)))"
    and "Cumul df' = Some (cumprod (map (fadd (Fin 1)) (pct_change (map Cloture (price_rows df)))))"
    and "Drawdown df' = Some (map (\<lambda>x. fsub x (Fin 1))
           (map2 fdiv (cumprod (map (fadd (Fin 1)) (pct_change (map Cloture (price_rows df)))))
              (cummax (cumprod (map (fadd (Fin 1)) (pct_change (map Cloture (price_rows df))))))))"
  using assms by (auto simp: calculate_performance_def Let_def split: if_splits)

lemma calculate_performance_max_drawdown:
  assumes "calculate_performance df = (Some m, df')"
  shows "max_drawdown m = fmul (series_min (the (Drawdown df'))) (Fin 100)"
  using assms by (auto simp: calculate_performance_def Let_def split: if_splits)

lemma calculate_performance_metrics:
  assumes "calculate_performance df = (Some m, df')"
  shows "duration_days m = dates_max (map Date (price_rows df)) - dates_min (map Date (price_rows df))"
    and "duration_years m = real_of_int (duration_days m) / 365.25"
    and "total_return m =
           fmul (fsub (fdiv (Cloture (last (price_rows df))) (Cloture (hd (price_rows df)))) (Fin 1)) (Fin 100)"
    and "annual_return m =
           (if duration_years m > 0
            then fmul (fsub (fpow (fdiv (Cloture (last (price_rows df))) (Cloture (hd (price_rows df))))
                               (1 / duration_years m)) (Fin 1)) (Fin 100)
            else Fin 0)"
    and "volatility m =
           fmul (fmul (series_std (pct_change (map Cloture (price_rows df)))) (Fin (sqrt 252))) (Fin 100)"
    and "sharpe_ratio m =
           (if fpositive (volatility m)
            then fdiv (fsub (fdiv (annual_return m) (Fin 100)) (Fin 0.03)) (fdiv (volatility m) (Fin 100))
            else Fin 0)"
  using assms by (auto simp: calculate_performance_def Let_def split: if_splits)

subsection \<open>Drawdown\<close>

lemma drawdown_refines_spec:
  assumes "map Cloture (price_rows df) = map Fin c" and "2 \<le> length c" and "0 \<notin> set c"
  shows "\<exists>m df'. calculate_performance df = (Some m, df')
      \<and> Rendement df' = Some (NaN # map Fin (spec_returns c))
      \<and> Cumul df' = Some (NaN # map Fin (spec_wealth c))
      \<and> Drawdown df' = Some (NaN # map Fin (spec_drawdowns c))
      \<and> max_drawdown m = Fin (spec_max_drawdown_pct c)"
proof -
  have "length (price_rows df) = length c"
    using assms(1) by (metis length_map)
  then have "2 \<le> length (price_rows df)" using assms(2) by simp
  then obtain m df' where cp: "calculate_performance df = (Some m, df')"
    using calculate_performance_runs by blast
  note cols = drawdown_column [OF assms(2,3)]
  have r: "Rendement df' = Some (NaN # map Fin (spec_returns c))"
    using calculate_performance_frame(2) [OF cp] by (simp add: assms(1) cols(1))
  have w: "Cumul df' = Some (NaN # map Fin (spec_wealth c))"
    using calculate_performance_frame(3) [OF cp] by (simp only: assms(1) cols(2))
  have d: "Drawdown df' = Some (NaN # map Fin (spec_drawdowns c))"
    using calculate_performance_frame(4) [OF cp] by (simp only: assms(1) cols(3))
  have "spec_drawdowns c \<noteq> []"
    using assms(2) length_spec_drawdowns [of c] by (metis One_nat_def Suc_1 Suc_le_lessD length_0_conv less_not_refl zero_less_diff)
  then have "series_min (NaN # map Fin (spec_drawdowns c)) = Fin (Min (set (spec_drawdowns c)))"
    by (rule series_min_Fin)
  then have "max_drawdown m = Fin (spec_max_drawdown_pct c)"
    using calculate_performance_max_drawdown [OF cp] by (simp add: d spec_max_drawdown_pct_def)
  with cp r w d show ?thesis by blast
qed

lemma spec_example: "spec_max_drawdown_pct [100, 150, 90] = - 40"
  by code_simp

lemma spec_example_flat: "spec_max_drawdown_pct [100, 110] = 0"
  by code_simp

text \<open>
  C2: for a series of at least two records whose closing prices are all present (and not
  zero, so that every quotient of the claim is defined), \<^verbatim>\<open>calculate_performance\<close>
  returns a result; the column \<open>Cumul\<close> it builds is the wealth index of the
  specification, the cumulative product of \<open>1 +\<close> daily return from index 1 on (index 0
  is missing); the column \<open>Drawdown\<close> is the wealth index over its running maximum minus
  one; and the maximum drawdown it reports is the least drawdown times one hundred. For the
  closing prices 100, 150, 90 the maximum drawdown is \<open>-40\<close>.
\<close>

theorem max_drawdown_is_least_drawdown:
  "(map Cloture (price_rows df) = map Fin c \<and> 2 \<le> length c \<and> 0 \<notin> set c \<longrightarrow>
      (\<exists>m df'. calculate_performance df = (Some m, df')
        \<and> Rendement df' = Some (NaN # map Fin (spec_returns c))
        \<and> Cumul df' = Some (NaN # map Fin (spec_wealth c))
        \<and> Drawdown df' = Some (NaN # map Fin (spec_drawdowns c))
        \<and> max_drawdown m = Fin (spec_max_drawdown_pct c)))
   \<and> (\<exists>m df'. calculate_performance (frame_of [quote 1 100, quote 3 150, quote 5 90]) = (Some m, df')
        \<and> max_drawdown m = Fin (- 40))"
proof (intro conjI impI)
  assume "map Cloture (price_rows df) = map Fin c \<and> 2 \<le> length c \<and> 0 \<notin> set c"
  then show "\<exists>m df'. calculate_performance df = (Some m, df')
        \<and> Rendement df' = Some (NaN # map Fin (spec_returns c))
        \<and> Cumul df' = Some (NaN # map Fin (spec_wealth c))
        \<and> Drawdown df' = Some (NaN # map Fin (spec_drawdowns c))
        \<and> max_drawdown m = Fin (spec_max_drawdown_pct c)"
    using drawdown_refines_spec [of df c] by simp
next
  have "map Cloture (price_rows (frame_of [quote 1 100, quote 3 150, quote 5 90])) = map Fin [100, 150, 90]"
    by (simp add: frame_of_def quote_def)
  then show "\<exists>m df'. calculate_performance (frame_of [quote 1 100, quote 3 150, quote 5 90]) = (Some m, df')
        \<and> max_drawdown m = Fin (- 40)"
    using drawdown_refines_spec [of "frame_of [quote 1 100, quote 3 150, quote 5 90]" "[100, 150, 90]"]
    by (auto simp: spec_example)
qed

text \<open>
  The two-record series 100, 110: the wealth index is 1.1 and the maximum drawdown 0.
\<close>

theorem max_drawdown_is_least_drawdown_witness:
  "\<exists>m df'. calculate_performance (frame_of [quote 737426 100, quote 737792 110]) = (Some m, df')
      \<and> Cumul df' = Some [NaN, Fin (11 / 10)]
      \<and> max_drawdown m = Fin 0"
proof -
  have w: "spec_wealth [100, 110] = [11 / 10]"
    by code_simp
  show ?thesis
    using max_drawdown_is_least_drawdown
      [of "frame_of [quote 737426 100, quote 737792 110]" "[100, 110]", THEN conjunct1]
    by (auto simp: frame_of_def quote_def spec_example_flat w)
qed

subsection \<open>Duration and returns\<close>

lemma fold_min_sorted: "sorted (x # xs) \<Longrightarrow> fold min xs x = (x::int)"
  by (induction xs) (auto simp: min_def)

lemma fold_max_sorted: "sorted (x # xs) \<Longrightarrow> fold max xs x = last ((x::int) # xs)"
  by (induction xs arbitrary: x) (auto simp: max_def)

lemma dates_min_sorted: "sorted ds \<Longrightarrow> ds \<noteq> [] \<Longrightarrow> dates_min ds = hd ds"
  by (cases ds) (auto simp: dates_min_def fold_min_sorted simp del: sorted_wrt.simps)

lemma dates_max_sorted: "sorted ds \<Longrightarrow> ds \<noteq> [] \<Longrightarrow> dates_max ds = last ds"
  by (cases ds) (simp_all add: dates_max_def fold_max_sorted del: sorted_wrt.simps last.simps)

lemma sorted_hd_le_last: "sorted ds \<Longrightarrow> ds \<noteq> [] \<Longrightarrow> hd ds \<le> (last ds :: int)"
  by (cases ds) (auto simp: last_in_set)

text \<open>
  C3: for a date-sorted series of at least two records whose first closing price \<open>a\<close>
  and last closing price \<open>b\<close> are present, with \<open>a\<close> not zero and \<open>b / a\<close> not
  negative (so that the quotient and the power of the claim are defined),
  \<^verbatim>\<open>calculate_performance\<close> returns a result in which the duration in days is the last
  date minus the first, the duration in years is the days over 365.25, the total return is
  \<open>(b / a - 1) * 100\<close>, and the annualized return is \<open>((b / a) ^ (1 / years) - 1) * 100\<close>
  when the duration in years is positive and 0 otherwise, that is, when the duration is
  zero.
\<close>

theorem returns_and_duration:
  assumes "2 \<le> length (price_rows df)"
    and "sorted (map Date (price_rows df))"
    and "Cloture (hd (price_rows df)) = Fin a" and "a \<noteq> 0"
    and "Cloture (last (price_rows df)) = Fin b" and "0 \<le> b / a"
  shows "\<exists>m df'. calculate_performance df = (Some m, df')
      \<and> duration_days m = Date (last (price_rows df)) - Date (hd (price_rows df))
      \<and> 0 \<le> duration_days m
      \<and> duration_years m = real_of_int (duration_days m) / 365.25
      \<and> total_return m = Fin ((b / a - 1) * 100)
      \<and> annual_return m =
          (if 0 < duration_years m then Fin (((b / a) powr (1 / duration_years m) - 1) * 100)
           else Fin 0)
      \<and> (duration_days m = 0 \<longrightarrow> annual_return m = Fin 0)"
proof -
  obtain m df' where cp: "calculate_performance df = (Some m, df')"
    using calculate_performance_runs [OF assms(1)] by blast
  note M = calculate_performance_metrics [OF cp]
  have ne: "price_rows df \<noteq> []" using assms(1) by auto
  then have ne': "map Date (price_rows df) \<noteq> []" by simp
  have dmin: "dates_min (map Date (price_rows df)) = Date (hd (price_rows df))"
    using dates_min_sorted [OF assms(2) ne'] ne by (simp add: hd_map)
  have dmax: "dates_max (map Date (price_rows df)) = Date (last (price_rows df))"
    using dates_max_sorted [OF assms(2) ne'] ne by (simp add: last_map)
  have days: "duration_days m = Date (last (price_rows df)) - Date (hd (price_rows df))"
    using M(1) by (simp add: dmin dmax)
  have nonneg: "0 \<le> duration_days m"
    using sorted_hd_le_last [OF assms(2) ne'] ne by (simp add: days hd_map last_map)
  have ratio: "fdiv (Cloture (last (price_rows df))) (Cloture (hd (price_rows df))) = Fin (b / a)"
    using assms(3,4,5) by simp
  have total: "total_return m = Fin ((b / a - 1) * 100)"
    using M(3) by (simp add: ratio fsub_def)
  have pw: "fpow (Fin (b / a)) e = Fin ((b / a) powr e)" if "0 < e" for e
    using that assms(6) by (cases "b / a = 0") auto
  have annual: "annual_return m =
          (if 0 < duration_years m then Fin (((b / a) powr (1 / duration_years m) - 1) * 100)
           else Fin 0)"
  proof (cases "0 < duration_years m")
    case True
    then have "0 < 1 / duration_years m" by simp
    then have "fpow (Fin (b / a)) (1 / duration_years m) = Fin ((b / a) powr (1 / duration_years m))"
      by (rule pw)
    then show ?thesis
      using M(4) True by (simp add: ratio fsub_def del: fpow.simps)
  next
    case False
    then show ?thesis using M(4) by simp
  qed
  have zero: "duration_days m = 0 \<longrightarrow> annual_return m = Fin 0"
    using annual M(2) by simp
  from cp days nonneg M(2) total annual zero show ?thesis by blast
qed

text \<open>
  Closing prices 100 and 110 on 2 January 2020 and 2 January 2021: 366 days, 10 percent.
\<close>

theorem returns_and_duration_witness:
  "\<exists>m df'. calculate_performance (frame_of [quote 737426 100, quote 737792 110]) = (Some m, df')
      \<and> duration_days m = 366
      \<and> duration_years m = 366 / 365.25
      \<and> total_return m = Fin 10"
  using returns_and_duration [of "frame_of [quote 737426 100, quote 737792 110]" 100 110]
  by (auto simp: frame_of_def quote_def)

subsection \<open>Volatility and Sharpe ratio\<close>

lemma fdiv_NaN_right: "fdiv x NaN = NaN"
  by (cases x) auto

lemma pct_change_first: "pct_change (x # xs) = NaN # tl (pct_change (x # xs))"
proof -
  obtain y ys where f: "ffill (x # xs) = y # ys"
    using length_ffill_from [of NaN "x # xs"] by (cases "ffill (x # xs)") (auto simp: ffill_def)
  show ?thesis
    by (simp add: pct_change_def Let_def f shift1_def fdiv_NaN_right fsub_def)
qed

lemma series_std_two_rows:
  assumes "length xs = 2"
  shows "series_std (pct_change xs) = NaN"
proof -
  from assms obtain x y where xs: "xs = [x, y]"
    by (auto simp: numeral_2_eq_2 length_Suc_conv)
  have "length (tl (pct_change [x, y])) = 1"
    by (simp add: length_pct_change)
  then obtain z where "tl (pct_change [x, y]) = [z]"
    by (cases "tl (pct_change [x, y])") (auto simp del: length_tl)
  then have "pct_change xs = [NaN, z]"
    using pct_change_first [of x "[y]"] by (simp add: xs)
  then show ?thesis
    by (simp add: series_std_def notna_def Let_def)
qed

lemma spec_returns_flat: "c \<noteq> 0 \<Longrightarrow> spec_returns (replicate n c) = replicate (n - 1) 0"
  by (rule nth_equalityI) (auto simp: spec_returns_def)

lemma series_std_zeros:
  assumes "2 \<le> k"
  shows "series_std (NaN # replicate k (Fin 0)) = Fin 0"
proof -
  have f: "filter notna (NaN # replicate k (Fin 0)) = replicate k (Fin 0)"
    by (simp add: notna_def)
  have a: "list_all is_fin (replicate k (Fin 0))"
    by (simp add: list_all_iff)
  have s: "sum_list (replicate k (0::real)) = 0"
    by (simp add: sum_list_replicate)
  show ?thesis
    using assms by (simp add: series_std_def Let_def f a s sum_list_replicate del: filter.simps)
qed

lemma volatility_flat:
  assumes "map Cloture (price_rows df) = replicate n (Fin c)" and "c \<noteq> 0" and "3 \<le> n"
  shows "series_std (pct_change (map Cloture (price_rows df))) = Fin 0"
proof -
  have m: "map Cloture (price_rows df) = map Fin (replicate n c)"
    using assms(1) by simp
  have "replicate n c \<noteq> []" "0 \<notin> set (replicate n c)"
    using assms(2,3) by auto
  then have "pct_change (map Fin (replicate n c)) = NaN # map Fin (spec_returns (replicate n c))"
    by (rule pct_change_Fin)
  then have "pct_change (map Cloture (price_rows df)) = NaN # map Fin (spec_returns (replicate n c))"
    by (simp only: m)
  also have "\<dots> = NaN # replicate (n - 1) (Fin 0)"
    using assms(2) by (simp add: spec_returns_flat)
  finally show ?thesis
    using assms(3) by (simp add: series_std_zeros)
qed

text \<open>
  C7, as stated, at the two-record series with closing price 100 on both days: the
  volatility is not 0 but missing, the sample standard deviation of a single return.
\<close>

theorem flat_two_rows_volatility_counterexample:
  "map_option volatility (fst (calculate_performance (frame_of [quote 1 100, quote 2 100]))) = Some NaN"
proof -
  obtain m df' where cp: "calculate_performance (frame_of [quote 1 100, quote 2 100]) = (Some m, df')"
    using calculate_performance_runs [of "frame_of [quote 1 100, quote 2 100]"]
    by (auto simp: frame_of_def)
  have "series_std (pct_change (map Cloture (price_rows (frame_of [quote 1 100, quote 2 100])))) = NaN"
    by (rule series_std_two_rows) (simp add: frame_of_def)
  then have "volatility m = NaN"
    using calculate_performance_metrics(5) [OF cp] by simp
  then show ?thesis by (simp add: cp)
qed

text \<open>
  C7, amended: for every series of at least two records, the Sharpe ratio is
  \<open>(annual_return / 100 - 0.03) / (volatility / 100)\<close> when the volatility is positive and 0
  otherwise, and the divisor of that division is never zero. For a series of at least three
  records with one constant closing price that is not zero, the volatility is 0 and the
  Sharpe ratio is 0. For a series of exactly two records the volatility is missing and the
  Sharpe ratio is 0.
\<close>

theorem sharpe_guard_and_flat_series:
  assumes "2 \<le> length (price_rows df)"
  shows "\<exists>m df'. calculate_performance df = (Some m, df')
      \<and> sharpe_ratio m =
          (if fpositive (volatility m)
           then fdiv (fsub (fdiv (annual_return m) (Fin 100)) (Fin 0.03)) (fdiv (volatility m) (Fin 100))
           else Fin 0)
      \<and> (fpositive (volatility m) \<longrightarrow> fdiv (volatility m) (Fin 100) \<noteq> Fin 0)
      \<and> (length (price_rows df) = 2 \<longrightarrow> volatility m = NaN \<and> sharpe_ratio m = Fin 0)
      \<and> (3 \<le> length (price_rows df) \<and> c \<noteq> 0 \<and> (\<forall>r \<in> set (price_rows df). Cloture r = Fin c)
            \<longrightarrow> volatility m = Fin 0 \<and> sharpe_ratio m = Fin 0)"
proof -
  obtain m df' where cp: "calculate_performance df = (Some m, df')"
    using calculate_performance_runs [OF assms] by blast
  note M = calculate_performance_metrics [OF cp]
  have guard: "fpositive (volatility m) \<longrightarrow> fdiv (volatility m) (Fin 100) \<noteq> Fin 0"
    by (cases "volatility m") auto
  have two: "volatility m = NaN \<and> sharpe_ratio m = Fin 0" if "length (price_rows df) = 2"
  proof -
    have "series_std (pct_change (map Cloture (price_rows df))) = NaN"
      using that by (intro series_std_two_rows) simp
    then have "volatility m = NaN" using M(5) by simp
    then show ?thesis using M(6) by simp
  qed
  have flat: "volatility m = Fin 0 \<and> sharpe_ratio m = Fin 0"
    if "3 \<le> length (price_rows df)" "c \<noteq> 0" "\<forall>r \<in> set (price_rows df). Cloture r = Fin c"
  proof -
    have "map Cloture (price_rows df) = map (\<lambda>r. Fin c) (price_rows df)"
      using that(3) by simp
    then have "map Cloture (price_rows df) = replicate (length (price_rows df)) (Fin c)"
      by (simp only: map_replicate_const)
    then have "series_std (pct_change (map Cloture (price_rows df))) = Fin 0"
      using that(2,1) by (rule volatility_flat)
    then have "volatility m = Fin 0" using M(5) by simp
    then show ?thesis using M(6) by simp
  qed
  from cp M(6) guard two flat show ?thesis by blast
qed

text \<open>
  Three records with closing price 100.
\<close>

theorem sharpe_guard_and_flat_series_witness:
  "\<exists>m df'. calculate_performance (frame_of [quote 1 100, quote 2 100, quote 3 100]) = (Some m, df')
      \<and> volatility m = Fin 0 \<and> sharpe_ratio m = Fin 0"
  using sharpe_guard_and_flat_series [of "frame_of [quote 1 100, quote 2 100, quote 3 100]" 100]
  by (auto simp: frame_of_def quote_def)

subsection \<open>The frame after the call\<close>

lemma length_cumprod_from: "length (cumprod_from acc xs) = length xs"
  by (induction xs arbitrary: acc) auto

lemma length_cummax_from: "length (cummax_from acc xs) = length xs"
  by (induction xs arbitrary: acc) auto

lemma length_cumprod: "length (cumprod xs) = length xs"
  by (simp add: cumprod_def length_cumprod_from)

lemma length_cummax: "length (cummax xs) = length xs"
  by (simp add: cummax_def length_cummax_from)

lemma spec_returns_example: "spec_returns [100, 110] = [1 / 10]"
  by code_simp

lemma spec_wealth_example: "spec_wealth [100, 110] = [11 / 10]"
  by code_simp

lemma spec_drawdowns_example: "spec_drawdowns [100, 110] = [0]"
  by code_simp

text \<open>
  C10: for a frame of at least two records, \<^verbatim>\<open>calculate_performance\<close> returns a
  result and leaves the frame it was given with three columns set, one value per record
  each: \<open>Rendement\<close> is the percentage change of the closing prices, \<open>Cumul\<close> the
  cumulative product of \<open>1 + Rendement\<close>, and \<open>Drawdown\<close> is \<open>Cumul\<close> over its
  running maximum, minus one; for closing prices that are present and not zero these are
  the daily returns, the wealth index and the drawdowns of the specification, after a
  missing first value. The price rows (the columns Date, Ouverture, Plus_Haut, Plus_Bas,
  Cloture, Volume and Symbole) are as they were; a frame that lacked one of the three
  columns is therefore not the frame it was.
\<close>

theorem calculate_performance_adds_columns:
  assumes "2 \<le> length (price_rows df)"
  shows "\<exists>m df' r w d. calculate_performance df = (Some m, df')
      \<and> price_rows df' = price_rows df
      \<and> Rendement df' = Some r \<and> Cumul df' = Some w \<and> Drawdown df' = Some d
      \<and> r = pct_change (map Cloture (price_rows df))
      \<and> w = cumprod (map (fadd (Fin 1)) r)
      \<and> d = map (\<lambda>x. fsub x (Fin 1)) (map2 fdiv w (cummax w))
      \<and> length r = length (price_rows df)
      \<and> length w = length (price_rows df)
      \<and> length d = length (price_rows df)
      \<and> (\<forall>c. map Cloture (price_rows df) = map Fin c \<and> 0 \<notin> set c \<longrightarrow>
            r = NaN # map Fin (spec_returns c)
            \<and> w = NaN # map Fin (spec_wealth c)
            \<and> d = NaN # map Fin (spec_drawdowns c))
      \<and> (Rendement df = None \<or> Cumul df = None \<or> Drawdown df = None \<longrightarrow> df' \<noteq> df)"
proof -
  obtain m df' where cp: "calculate_performance df = (Some m, df')"
    using calculate_performance_runs [OF assms] by blast
  note F = calculate_performance_frame [OF cp]
  define r where "r = pct_change (map Cloture (price_rows df))"
  define w where "w = cumprod (map (fadd (Fin 1)) r)"
  define d where "d = map (\<lambda>x. fsub x (Fin 1)) (map2 fdiv w (cummax w))"
  have lr: "length r = length (price_rows df)"
    by (simp add: r_def length_pct_change)
  have lw: "length w = length (price_rows df)"
    by (simp add: w_def length_cumprod lr)
  have ld: "length d = length (price_rows df)"
    by (simp add: d_def length_cummax lw)
  have spec: "\<forall>c. map Cloture (price_rows df) = map Fin c \<and> 0 \<notin> set c \<longrightarrow>
            r = NaN # map Fin (spec_returns c)
            \<and> w = NaN # map Fin (spec_wealth c)
            \<and> d = NaN # map Fin (spec_drawdowns c)"
  proof (intro allI impI)
    fix c assume c: "map Cloture (price_rows df) = map Fin c \<and> 0 \<notin> set c"
    then have "length c = length (price_rows df)" by (metis length_map)
    then have "2 \<le> length c" using assms by simp
    from drawdown_column [OF this] c
    show "r = NaN # map Fin (spec_returns c)
            \<and> w = NaN # map Fin (spec_wealth c)
            \<and> d = NaN # map Fin (spec_drawdowns c)"
      by (simp add: r_def w_def d_def)
  qed
  have changed: "Rendement df = None \<or> Cumul df = None \<or> Drawdown df = None \<longrightarrow> df' \<noteq> df"
    using F(2,3,4) by auto
  have "Rendement df' = Some r" "Cumul df' = Some w" "Drawdown df' = Some d"
    using F(2,3,4) by (simp_all add: r_def w_def d_def)
  with cp F(1) show ?thesis
    using lr lw ld spec changed r_def w_def d_def
    by (intro exI [of _ m] exI [of _ df'] exI [of _ r] exI [of _ w] exI [of _ d] conjI)
qed

text \<open>Two records, closing prices 100 and 110: the frame after the call.\<close>

theorem calculate_performance_adds_columns_witness:
  "snd (calculate_performance (frame_of [quote 1 100, quote 2 110])) =
     \<lparr>price_rows = [quote 1 100, quote 2 110],
      Rendement = Some [NaN, Fin (1 / 10)],
      Cumul = Some [NaN, Fin (11 / 10)],
      Drawdown = Some [NaN, Fin 0]\<rparr>"
proof -
  let ?df = "frame_of [quote 1 100, quote 2 110]"
  have c: "map Cloture (price_rows ?df) = map Fin [100, 110] \<and> 0 \<notin> set [100, 110 :: real]"
    by (simp add: frame_of_def quote_def)
  have two: "2 \<le> length (price_rows ?df)"
    by (simp add: frame_of_def)
  from calculate_performance_adds_columns [OF two] obtain m df' r w d where
    all: "calculate_performance ?df = (Some m, df')
      \<and> price_rows df' = price_rows ?df
      \<and> Rendement df' = Some r \<and> Cumul df' = Some w \<and> Drawdown df' = Some d
      \<and> r = pct_change (map Cloture (price_rows ?df))
      \<and> w = cumprod (map (fadd (Fin 1)) r)
      \<and> d = map (\<lambda>x. fsub x (Fin 1)) (map2 fdiv w (cummax w))
      \<and> length r = length (price_rows ?df)
      \<and> length w = length (price_rows ?df)
      \<and> length d = length (price_rows ?df)
      \<and> (\<forall>c. map Cloture (price_rows ?df) = map Fin c \<and> 0 \<notin> set c \<longrightarrow>
            r = NaN # map Fin (spec_returns c)
            \<and> w = NaN # map Fin (spec_wealth c)
            \<and> d = NaN # map Fin (spec_drawdowns c))
      \<and> (Rendement ?df = None \<or> Cumul ?df = None \<or> Drawdown ?df = None \<longrightarrow> df' \<noteq> ?df)"
    by (elim exE) (rule that)
  from all have cp: "calculate_performance ?df = (Some m, df')"
    by (elim conjE)
  from all have rows: "price_rows df' = price_rows ?df"
    by (elim conjE)
  from all have c1: "Rendement df' = Some r"
    by (elim conjE)
  from all have c2: "Cumul df' = Some w"
    by (elim conjE)
  from all have c3: "Drawdown df' = Some d"
    by (elim conjE)
  note cols = c1 c2 c3
  from all have sp: "\<forall>c. map Cloture (price_rows ?df) = map Fin c \<and> 0 \<notin> set c \<longrightarrow>
            r = NaN # map Fin (spec_returns c)
            \<and> w = NaN # map Fin (spec_wealth c)
            \<and> d = NaN # map Fin (spec_drawdowns c)"
    by (elim conjE)
  from sp [THEN spec, THEN mp, OF c]
  have "r = [NaN, Fin (1 / 10)]" "w = [NaN, Fin (11 / 10)]" "d = [NaN, Fin 0]"
    by (simp_all add: spec_returns_example spec_wealth_example spec_drawdowns_example)
  with cols rows have "df' = \<lparr>price_rows = [quote 1 100, quote 2 110],
      Rendement = Some [NaN, Fin (1 / 10)],
      Cumul = Some [NaN, Fin (11 / 10)],
      Drawdown = Some [NaN, Fin 0]\<rparr>"
    by (cases df') (simp add: frame_of_def)
  then show ?thesis by (simp add: cp)
qed

section \<open>Properties of saving and loading\<close>














end
